theory Spec2Isabelle
  imports Main "HOL-Library.Word" "HOL-Library.Monad_Syntax"
begin

unbundle bit_operations_syntax

section \<open>Machine types and constants\<close>

text \<open>
  \<^verbatim>\<open>physaddr_t\<close>, \<^verbatim>\<open>virtaddr_t\<close>, \<^verbatim>\<open>page_t\<close>, \<^verbatim>\<open>row_t\<close> and \<^verbatim>\<open>bank_t\<close> are all
  \<^verbatim>\<open>uint64_t\<close> on the x86-64 target (dram_address.h, config.h).  Arithmetic on them
  wraps modulo \<open>2 ^ 64\<close>, which is what \<^typ>\<open>64 word\<close> does.
\<close>

type_synonym u64 = "64 word"
type_synonym u32 = "32 word"
type_synonym u8 = "8 word"

text \<open>
  config.h: \<^verbatim>\<open>const uint16_t page_size = 4_KiB; const uint16_t row_size = 8_KiB;\<close>
  Every use modelled here promotes the constant to a 64-bit operand first.
\<close>

definition page_size :: u64 where
  "page_size = 4096"

definition row_size :: u64 where
  "row_size = 8192"

section \<open>Physical page finder (phys\_page\_finder.h, phys\_page\_finder.cpp)\<close>

text \<open>
  \<^verbatim>\<open>class PhysPageFinder { virtaddr_t mem; std::map<uint32_t, uint32_t> pagemap; ... }\<close>
  The map sends a frame number to the page offset relative to \<^verbatim>\<open>mem\<close>.
\<close>

record PhysPageFinder =
  mem :: u64
  pagemap :: "u32 \<rightharpoonup> u32"

text \<open>
  \<^verbatim>\<open>pagemap.find(phys_addr / page_size)\<close>: the key type of the map is \<^verbatim>\<open>uint32_t\<close>, so the
  64-bit quotient is converted (truncated) to 32 bits before the lookup.
\<close>

definition pfn_key :: "u64 \<Rightarrow> u32" where
  "pfn_key phys_addr = ucast (phys_addr div page_size)"

text \<open>
  \<^verbatim>\<open>bool find_page(uint64_t phys_addr, virtaddr_t &virt_addr) const\<close>.  The reference
  parameter is passed in and returned: it is written only on the path that returns true.
\<close>

definition find_page :: "PhysPageFinder \<Rightarrow> u64 \<Rightarrow> u64 \<Rightarrow> bool \<times> u64" where
  "find_page f phys_addr virt_addr =
     (case pagemap f (pfn_key phys_addr) of
        None \<Rightarrow> (False, virt_addr)
      | Some off \<Rightarrow> (True, mem f + ucast off * page_size))"

text \<open>\<^verbatim>\<open>bool contains(page_t phys_page) const { return pagemap.contains(phys_page); }\<close>\<close>

definition contains :: "PhysPageFinder \<Rightarrow> u64 \<Rightarrow> bool" where
  "contains f phys_page = (pagemap f (ucast phys_page) \<noteq> None)"

section \<open>Bit flipper: resolving pages (bit\_flipper.h, bit\_flipper.cpp)\<close>

record HammerAddrs =
  aggs :: "u64 list"
  victims :: "u64 list"

text \<open>
  The members of \<^verbatim>\<open>BitFlipper\<close> that \<^verbatim>\<open>find_pages\<close> and the flip scan read or write.
\<close>

record BitFlipper =
  phys :: HammerAddrs
  virt_aggs :: "u64 list"
  virt_victims :: "u64 list"

text \<open>
  The constructor value-initialises both virtual vectors to the sizes of their physical
  counterparts: \<^verbatim>\<open>virt_aggs(phys.aggs.size()), virt_victims(phys.victims.size())\<close>.
\<close>

definition BitFlipper_new :: "HammerAddrs \<Rightarrow> BitFlipper" where
  "BitFlipper_new addrs =
     \<lparr>phys = addrs,
      virt_aggs = replicate (length (aggs addrs)) 0,
      virt_victims = replicate (length (victims addrs)) 0\<rparr>"

text \<open>
  One iteration of \<^verbatim>\<open>found &= finder.find_page(ps[i], vs[i]);\<close>.  There is no
  short-circuit: \<^verbatim>\<open>&=\<close> evaluates the call whatever \<^verbatim>\<open>found\<close> is.
\<close>

definition find_step :: "PhysPageFinder \<Rightarrow> u64 list \<Rightarrow> nat \<Rightarrow> bool \<times> u64 list \<Rightarrow> bool \<times> u64 list" where
  "find_step f ps i st =
     (let r = find_page f (ps ! i) (snd st ! i)
      in (fst st \<and> fst r, (snd st)[i := snd r]))"

text \<open>\<^verbatim>\<open>for (std::size_t i = 0; i < ps.size(); ++i) found &= ...\<close>\<close>

definition find_loop :: "PhysPageFinder \<Rightarrow> u64 list \<Rightarrow> bool \<times> u64 list \<Rightarrow> bool \<times> u64 list" where
  "find_loop f ps st = fold (find_step f ps) [0..<length ps] st"

definition find_pages :: "PhysPageFinder \<Rightarrow> BitFlipper \<Rightarrow> bool \<times> BitFlipper" where
  "find_pages f bf =
     (let a = find_loop f (aggs (phys bf)) (True, virt_aggs bf);
          v = find_loop f (victims (phys bf)) (fst a, virt_victims bf)
      in (fst v, bf\<lparr>virt_aggs := snd a, virt_victims := snd v\<rparr>))"

text \<open>The virtual address that a present page resolves to.\<close>

definition page_virt :: "PhysPageFinder \<Rightarrow> u64 \<Rightarrow> u64" where
  "page_virt f phys_addr = snd (find_page f phys_addr 0)"

definition present :: "PhysPageFinder \<Rightarrow> u64 \<Rightarrow> bool" where
  "present f phys_addr = (pagemap f (pfn_key phys_addr) \<noteq> None)"

text \<open>Concrete inputs used below.\<close>

definition finder_ex :: PhysPageFinder where
  "finder_ex = \<lparr>mem = 0x7f0000000000, pagemap = [1 \<mapsto> 5]\<rparr>"

definition flipper_ex :: BitFlipper where
  "flipper_ex = BitFlipper_new \<lparr>aggs = [0x1000, 0x2000], victims = []\<rparr>"

section \<open>Bit helpers (operators.h)\<close>

text \<open>
  \<^verbatim>\<open>count_one_bits\<close> is \<^verbatim>\<open>__builtin_popcountll\<close>, the number of 1-bits of a 64-bit value.
  The result is at most 64 and is only used as a count or shift amount.
\<close>

definition count_one_bits :: "u64 \<Rightarrow> nat" where
  "count_one_bits v = length (filter (bit v) [0..<64])"

text \<open>
  \<^verbatim>\<open>xor_bits(value, bitmask)\<close> is \<^verbatim>\<open>__builtin_parityll(value & bitmask)\<close>: the number of
  1-bits modulo 2, returned as \<^verbatim>\<open>uint64_t\<close>.
\<close>

definition xor_bits :: "u64 \<Rightarrow> u64 \<Rightarrow> u64" where
  "xor_bits v bitmask = of_bool (odd (count_one_bits (v AND bitmask)))"

text \<open>
  \<^verbatim>\<open>__builtin_ctzll\<close> and \<^verbatim>\<open>__builtin_clzll\<close>: ``If x is 0, the result is undefined''.
  \<open>None\<close> stands for that undefined result; otherwise the position of the lowest set bit,
  and 63 minus the position of the highest set bit.
\<close>

definition count_trailing_zero_bits :: "u64 \<Rightarrow> nat option" where
  "count_trailing_zero_bits v = List.find (bit v) [0..<64]"

definition count_leading_zero_bits :: "u64 \<Rightarrow> nat option" where
  "count_leading_zero_bits v = map_option (\<lambda>n. 63 - n) (List.find (bit v) (rev [0..<64]))"

text \<open>
  \<^verbatim>\<open>1 << n\<close> with the literal \<^verbatim>\<open>1\<close> of type \<^verbatim>\<open>int\<close>, converted to \<^verbatim>\<open>uint64_t\<close> afterwards
  (dram\_address.cpp: \<^verbatim>\<open>p_addr ^= 1 << h_lsb\<close>; dram\_layout.h: \<^verbatim>\<open>return 1 << h_fns.size()\<close>).
  The shift happens in 32 bits: a count of 32 or more is undefined, and for 31 the C++20
  result is \<^verbatim>\<open>INT_MIN\<close>, which the conversion sign-extends.
\<close>

definition int_shl_1 :: "nat \<Rightarrow> u64 option" where
  "int_shl_1 n = (if n < 32 then Some (scast (push_bit n (1 :: 32 word))) else None)"

section \<open>DRAM layout and addresses (dram\_layout.h, dram\_address.h, dram\_address.cpp)\<close>

record DRAMLayout =
  h_fns :: "u64 list"
  row_masks :: "u64 list"
  col_masks :: "u64 list"

text \<open>\<^verbatim>\<open>uint64_t get_banks_cnt() const { return 1 << h_fns.size(); }\<close>\<close>

definition get_banks_cnt :: "DRAMLayout \<Rightarrow> u64 option" where
  "get_banks_cnt L = int_shl_1 (length (h_fns L))"

record DRAMAddr =
  bank :: u64
  row :: u64
  col :: u64

text \<open>
  The global \<^verbatim>\<open>config.dram_layout\<close> that the C++ functions read is passed as the first
  argument.  \<open>None\<close> is undefined behaviour (a shift count out of range, a count of
  trailing zeros of 0) or a failed \<^verbatim>\<open>assert\<close>.

  \<^verbatim>\<open>for (uint64_t i = 0; i < h_fns.size(); i++) bank |= xor_bits(p_addr, h_fns[i]) << i;\<close>
\<close>

fun bank_loop :: "u64 \<Rightarrow> u64 list \<Rightarrow> nat \<Rightarrow> u64 \<Rightarrow> u64 option" where
  "bank_loop p_addr [] i b = Some b"
| "bank_loop p_addr (f # fs) i b =
     (if i < 64 then bank_loop p_addr fs (i + 1) (b OR push_bit i (xor_bits p_addr f))
      else None)"

text \<open>
  The loop shared by \<^verbatim>\<open>get_dram_row\<close> and \<^verbatim>\<open>get_dram_col\<close>, which differ only in the
  mask list:
  \<^verbatim>\<open>row += ((p_addr & mask) >> count_trailing_zero_bits(mask)) << offset;
  offset += count_one_bits(mask);\<close>
\<close>

fun field_loop :: "u64 \<Rightarrow> u64 list \<Rightarrow> nat \<Rightarrow> u64 \<Rightarrow> u64 option" where
  "field_loop p_addr [] offset r = Some r"
| "field_loop p_addr (m # ms) offset r =
     (case count_trailing_zero_bits m of
        None \<Rightarrow> None
      | Some t \<Rightarrow>
          if offset < 64
          then field_loop p_addr ms (offset + count_one_bits m)
                 (r + push_bit offset (drop_bit t (p_addr AND m)))
          else None)"

text \<open>
  \<^verbatim>\<open>if (masks.size() == 1) return (p_addr & masks[0]) >> count_trailing_zero_bits(masks[0]);\<close>
  and the loop otherwise.
\<close>

definition get_dram_field :: "u64 list \<Rightarrow> u64 \<Rightarrow> u64 option" where
  "get_dram_field masks p_addr =
     (if length masks = 1
      then map_option (\<lambda>t. drop_bit t (p_addr AND masks ! 0))
             (count_trailing_zero_bits (masks ! 0))
      else field_loop p_addr masks 0 0)"

definition get_dram_row :: "DRAMLayout \<Rightarrow> u64 \<Rightarrow> u64 option" where
  "get_dram_row L p_addr = get_dram_field (row_masks L) p_addr"

definition get_dram_col :: "DRAMLayout \<Rightarrow> u64 \<Rightarrow> u64 option" where
  "get_dram_col L p_addr = get_dram_field (col_masks L) p_addr"

text \<open>The constructor \<^verbatim>\<open>DRAMAddr::DRAMAddr(const physaddr_t &p_addr)\<close>.\<close>

definition DRAMAddr_of_phys :: "DRAMLayout \<Rightarrow> u64 \<Rightarrow> DRAMAddr option" where
  "DRAMAddr_of_phys L p_addr =
     do { b \<leftarrow> bank_loop p_addr (h_fns L) 0 0;
          r \<leftarrow> get_dram_row L p_addr;
          c \<leftarrow> get_dram_col L p_addr;
          Some \<lparr>bank = b, row = r, col = c\<rparr> }"

text \<open>
  \<^verbatim>\<open>uint64_t res = val & ((1 << n) - 1); val = val >> n; return res;\<close>
  \<^verbatim>\<open>1 << n\<close> is an \<^verbatim>\<open>int\<close>: for \<^verbatim>\<open>n = 31\<close> the subtraction overflows and for larger \<^verbatim>\<open>n\<close> the
  shift is out of range, both undefined.  The pair is the result and the new \<^verbatim>\<open>val\<close>.
\<close>

definition pop_least_significant_bits :: "u64 \<Rightarrow> nat \<Rightarrow> (u64 \<times> u64) option" where
  "pop_least_significant_bits val n =
     (if n < 31 then Some (val AND (2 ^ n - 1), drop_bit n val) else None)"

text \<open>
  \<^verbatim>\<open>for (mask : masks) { n = count_one_bits(mask); offset = count_trailing_zero_bits(mask);
  bits = pop_least_significant_bits(r, n); p_addr |= bits << offset; } assert(r == 0);\<close>
\<close>

fun place_loop :: "u64 \<Rightarrow> u64 list \<Rightarrow> u64 \<Rightarrow> u64 option" where
  "place_loop r [] p_addr = (if r = 0 then Some p_addr else None)"
| "place_loop r (m # ms) p_addr =
     (case count_trailing_zero_bits m of
        None \<Rightarrow> None
      | Some offset \<Rightarrow>
          (case pop_least_significant_bits r (count_one_bits m) of
             None \<Rightarrow> None
           | Some (bs, r') \<Rightarrow> place_loop r' ms (p_addr OR push_bit offset bs)))"

text \<open>
  \<^verbatim>\<open>if (masks.size() == 1) p_addr |= v << count_trailing_zero_bits(masks[0]);\<close> and the
  loop otherwise.  (For the row the source assigns instead of or-ing, into \<^verbatim>\<open>p_addr = 0\<close>.)
\<close>

definition place_field :: "u64 \<Rightarrow> u64 list \<Rightarrow> u64 \<Rightarrow> u64 option" where
  "place_field v masks p_addr =
     (if length masks = 1
      then map_option (\<lambda>t. p_addr OR push_bit t v) (count_trailing_zero_bits (masks ! 0))
      else place_loop v masks p_addr)"

text \<open>
  The sweep over the mapping functions:
  \<^verbatim>\<open>if (xor_bits(p_addr, h_fns[i]) == ((bank >> i) & 1l)) continue;
  h_lsb = count_trailing_zero_bits(h_fns[i] & not_col_mask & not_row_mask);
  p_addr ^= 1 << h_lsb;\<close>
\<close>

fun h_fn_loop :: "u64 \<Rightarrow> u64 \<Rightarrow> u64 \<Rightarrow> u64 list \<Rightarrow> nat \<Rightarrow> u64 \<Rightarrow> u64 option" where
  "h_fn_loop b not_row_mask not_col_mask [] i p_addr = Some p_addr"
| "h_fn_loop b not_row_mask not_col_mask (f # fs) i p_addr =
     (if i < 64 then
        (if xor_bits p_addr f = drop_bit i b AND 1
         then h_fn_loop b not_row_mask not_col_mask fs (i + 1) p_addr
         else
           do { h_lsb \<leftarrow> count_trailing_zero_bits (f AND not_col_mask AND not_row_mask);
                s \<leftarrow> int_shl_1 h_lsb;
                h_fn_loop b not_row_mask not_col_mask fs (i + 1) (p_addr XOR s) })
      else None)"

text \<open>
  The \<^verbatim>\<open>DEBUG_REVERSE_FN\<close> block at the end of \<^verbatim>\<open>phys()\<close>: whether every mapping function
  and the row are respected by the computed address.  When the result is false the source
  logs ``Mapping function for ... not respected''; the returned address is not affected.
\<close>

fun h_fns_respected :: "u64 \<Rightarrow> u64 list \<Rightarrow> nat \<Rightarrow> u64 \<Rightarrow> bool option" where
  "h_fns_respected b [] i p_addr = Some True"
| "h_fns_respected b (f # fs) i p_addr =
     (if i < 64 then
        (if xor_bits p_addr f \<noteq> drop_bit i b AND 1 then Some False
         else h_fns_respected b fs (i + 1) p_addr)
      else None)"

definition mapping_respected :: "DRAMLayout \<Rightarrow> DRAMAddr \<Rightarrow> u64 \<Rightarrow> bool option" where
  "mapping_respected L d p_addr =
     do { c \<leftarrow> h_fns_respected (bank d) (h_fns L) 0 p_addr;
          r \<leftarrow> get_dram_row L p_addr;
          Some (c \<and> row d = r) }"

text \<open>
  \<^verbatim>\<open>physaddr_t DRAMAddr::phys() const\<close>.  \<^verbatim>\<open>std::accumulate(masks.begin(), masks.end(), 0ull)\<close>
  adds the masks.
\<close>

definition DRAMAddr_phys :: "DRAMLayout \<Rightarrow> DRAMAddr \<Rightarrow> u64 option" where
  "DRAMAddr_phys L d =
     do { a \<leftarrow> place_field (row d) (row_masks L) 0;
          a' \<leftarrow> place_field (col d) (col_masks L) a;
          p_addr \<leftarrow> h_fn_loop (bank d) (NOT (foldl (+) 0 (row_masks L)))
                      (NOT (foldl (+) 0 (col_masks L))) (h_fns L) 0 a';
          _ \<leftarrow> mapping_respected L d p_addr;
          Some p_addr }"

text \<open>The layout that config.h installs by default.\<close>

definition default_layout :: DRAMLayout where
  "default_layout = \<lparr>h_fns = [0x2040, 0x44000, 0x88000, 0x110000, 0x220000],
                     row_masks = [0xffffc0000], col_masks = [0x1fff]\<rparr>"

section \<open>Configuration (config.h, config.cpp)\<close>

text \<open>
  \<^verbatim>\<open>class HammerPattern : public std::vector<bool> { std::string description; ... }\<close>
\<close>

record HammerPattern =
  bits :: "bool list"
  description :: string

text \<open>
  The fields of \<^verbatim>\<open>Config\<close> that \<^verbatim>\<open>verify_values\<close> and the flip finders read or write.  The
  functions below are stated over every extension of the record, so each one visibly
  leaves all further fields alone.
\<close>

record Config =
  dram_layout :: DRAMLayout
  aggressor_rows :: u32
  banks :: "u64 list"
  row_padding :: u32
  hammer_pattern :: HammerPattern
  victim_init :: "u64 list"
  aggressor_init :: "u64 list"
  test_min_rows :: u64
  test_max_rows :: u64
  test_first_row :: u64
  test_last_row :: u64

text \<open>
  Why \<^verbatim>\<open>verify_values\<close> does not return: one of its \<^verbatim>\<open>log_error_and_exit\<close> calls, an
  exception of \<^verbatim>\<open>std::vector::resize\<close>, or undefined behaviour.
\<close>

datatype config_error =
    Exit_row_masks
  | Exit_col_masks
  | Exit_bank_out_of_range
  | Exit_init_sizes
  | Exit_hammer_pattern
  | Length_error
  | Undefined_behaviour

text \<open>\<^verbatim>\<open>log_warn("Changed value of test_max_rows to minimum allowed value ", test_max_rows, ...)\<close>\<close>

datatype log_msg = Warn_test_max_rows_changed u64

text \<open>
  \<^verbatim>\<open>bool Config::verify_masks(const std::vector<uint64_t> masks)\<close>: false as soon as
  \<^verbatim>\<open>leading_zeros + ones + trailing_zeros != 64\<close> for a mask.
\<close>

fun verify_masks :: "u64 list \<Rightarrow> bool option" where
  "verify_masks [] = Some True"
| "verify_masks (m # ms) =
     (case count_leading_zero_bits m of
        None \<Rightarrow> None
      | Some leading_zeros \<Rightarrow>
          (case count_trailing_zero_bits m of
             None \<Rightarrow> None
           | Some trailing_zeros \<Rightarrow>
               if leading_zeros + count_one_bits m + trailing_zeros \<noteq> 64 then Some False
               else verify_masks ms))"

text \<open>The two mask checks at the head of \<^verbatim>\<open>verify_values\<close>.\<close>

definition verify_layout :: "'a Config_scheme \<Rightarrow> config_error option" where
  "verify_layout cfg =
     (case verify_masks (row_masks (dram_layout cfg)) of
        None \<Rightarrow> Some Undefined_behaviour
      | Some False \<Rightarrow> Some Exit_row_masks
      | Some True \<Rightarrow>
          (case verify_masks (col_masks (dram_layout cfg)) of
             None \<Rightarrow> Some Undefined_behaviour
           | Some False \<Rightarrow> Some Exit_col_masks
           | Some True \<Rightarrow> None))"

text \<open>
  \<^verbatim>\<open>if (banks.empty()) { banks.resize(banks_cnt); std::iota(banks.begin(), banks.end(), 0); }
  else if (std::any_of(..., b >= banks_cnt)) log_error_and_exit(...)\<close>.
  \<^verbatim>\<open>resize\<close> throws \<^verbatim>\<open>std::length_error\<close> beyond \<^verbatim>\<open>max_size()\<close>, which is below \<open>2 ^ 60\<close>
  elements of eight bytes.
\<close>

definition verify_banks :: "'a Config_scheme \<Rightarrow> config_error + 'a Config_scheme" where
  "verify_banks cfg =
     (case get_banks_cnt (dram_layout cfg) of
        None \<Rightarrow> Inl Undefined_behaviour
      | Some banks_cnt \<Rightarrow>
          if banks cfg = [] then
            (if 2 ^ 60 \<le> unat banks_cnt then Inl Length_error
             else Inr (cfg\<lparr>banks := map of_nat [0..<unat banks_cnt]\<rparr>))
          else if \<exists>b \<in> set (banks cfg). banks_cnt \<le> b then Inl Exit_bank_out_of_range
          else Inr cfg)"

text \<open>
  \<^verbatim>\<open>const uint64_t test_max_rows_lb = test_min_rows + row_padding * 2;\<close>
  \<^verbatim>\<open>row_padding\<close> is a \<^verbatim>\<open>uint32_t\<close>: the product is taken in 32 bits, the sum in 64.
\<close>

definition test_max_rows_lb :: "'a Config_scheme \<Rightarrow> u64" where
  "test_max_rows_lb cfg = test_min_rows cfg + ucast (row_padding cfg * 2)"

text \<open>
  \<^verbatim>\<open>if (test_max_rows > 0 && test_max_rows < test_max_rows_lb) {
  test_max_rows = test_max_rows_lb; log_warn(...); }\<close>
  The result is the configuration and what has been logged.
\<close>

definition normalize_test_max_rows :: "'a Config_scheme \<Rightarrow> 'a Config_scheme \<times> log_msg list" where
  "normalize_test_max_rows cfg =
     (if 0 < test_max_rows cfg \<and> test_max_rows cfg < test_max_rows_lb cfg
      then (cfg\<lparr>test_max_rows := test_max_rows_lb cfg\<rparr>,
            [Warn_test_max_rows_changed (test_max_rows_lb cfg)])
      else (cfg, []))"

text \<open>
  The constructor \<^verbatim>\<open>HammerPattern(const std::string &description, uint32_t &aggressors_rows)\<close>
  is defined in hammer\_pattern.cpp; \<^verbatim>\<open>verify_values\<close> is modelled for any such constructor,
  given as the pattern and the possibly increased count, or the reason for not returning.
\<close>

type_synonym pattern_ctor = "string \<Rightarrow> u32 \<Rightarrow> config_error + HammerPattern \<times> u32"

text \<open>
  \<^verbatim>\<open>if (hammer_pattern.empty())
    hammer_pattern = HammerPattern(hammer_pattern.get_description(), aggressor_rows);\<close>
\<close>

definition rebuild_hammer_pattern ::
  "pattern_ctor \<Rightarrow> 'a Config_scheme \<Rightarrow> config_error + 'a Config_scheme" where
  "rebuild_hammer_pattern ctor cfg =
     (if bits (hammer_pattern cfg) = [] then
        (case ctor (description (hammer_pattern cfg)) (aggressor_rows cfg) of
           Inl e \<Rightarrow> Inl e
         | Inr (hp, n) \<Rightarrow> Inr (cfg\<lparr>hammer_pattern := hp, aggressor_rows := n\<rparr>))
      else Inr cfg)"

text \<open>
  \<^verbatim>\<open>if (aggressor_init.empty()) { aggressor_init.resize(victim_init.size());
  std::transform(..., [](uint64_t v) { return ~v; }); }\<close>
\<close>

definition default_aggressor_init :: "'a Config_scheme \<Rightarrow> 'a Config_scheme" where
  "default_aggressor_init cfg =
     (if aggressor_init cfg = [] then cfg\<lparr>aggressor_init := map NOT (victim_init cfg)\<rparr>
      else cfg)"

text \<open>
  \<^verbatim>\<open>void Config::verify_values()\<close>, in the order of the source: masks, banks,
  \<^verbatim>\<open>test_max_rows\<close>, hammer pattern, \<^verbatim>\<open>aggressor_init\<close>, and the final size check
  \<^verbatim>\<open>victim_init.size() != aggressor_init.size()\<close>.  (The \<^verbatim>\<open>USE_DB\<close> block that follows only
  replaces \<^verbatim>\<open>dimms\<close> by what dmidecode reports.)
\<close>

definition verify_values ::
  "pattern_ctor \<Rightarrow> 'a Config_scheme \<Rightarrow> config_error + 'a Config_scheme \<times> log_msg list" where
  "verify_values ctor cfg =
     (case verify_layout cfg of
        Some e \<Rightarrow> Inl e
      | None \<Rightarrow>
          (case verify_banks cfg of
             Inl e \<Rightarrow> Inl e
           | Inr c1 \<Rightarrow>
               (case rebuild_hammer_pattern ctor (fst (normalize_test_max_rows c1)) of
                  Inl e \<Rightarrow> Inl e
                | Inr c3 \<Rightarrow>
                    if length (victim_init (default_aggressor_init c3))
                         \<noteq> length (aggressor_init (default_aggressor_init c3))
                    then Inl Exit_init_sizes
                    else Inr (default_aggressor_init c3, snd (normalize_test_max_rows c1)))))"

text \<open>
  Concrete configurations: the default layout with two banks selected, a pattern that is
  already expanded, three victim words and no aggressor words; \<^verbatim>\<open>test_max_rows\<close> is 5 in the
  first and 0 (``no restriction'') in the second.
\<close>

definition config_ex :: Config where
  "config_ex = \<lparr>dram_layout = default_layout, aggressor_rows = 24, banks = [0, 1],
       row_padding = 10,
       hammer_pattern = \<lparr>bits = [False, True, False], description = ''va''\<rparr>,
       victim_init = [0, 0xff00, 0xffffffffffffffff], aggressor_init = [],
       test_min_rows = 49, test_max_rows = 5, test_first_row = 0, test_last_row = 0\<rparr>"

definition config_unrestricted :: Config where
  "config_unrestricted = config_ex\<lparr>test_max_rows := 0\<rparr>"

text \<open>A constructor that always exits; the configurations above never call it.\<close>

definition failing_ctor :: pattern_ctor where
  "failing_ctor d n = Inl Exit_hammer_pattern"

section \<open>Bit flipper: scanning the victims (bit\_flipper.cpp, \<^verbatim>\<open>hammer_and_check\<close>)\<close>

text \<open>
  What is emitted for one flipped bit: the arguments of
  \<^verbatim>\<open>db->insert_bitflip(victim_phys, victim_bit, flips_to)\<close>, whose signature is
  \<^verbatim>\<open>insert_bitflip(uint64_t victim, uint8_t bit, uint8_t flipped_to)\<close>; the log line
  \<^verbatim>\<open>log_info_flip\<close> prints the same three values.
\<close>

record BitFlip =
  bf_victim :: u64
  bf_bit :: u8
  bf_flipped_to :: u8

text \<open>
  For loop counter \<^verbatim>\<open>bit\<close>:
  \<^verbatim>\<open>victim_byte = bit / 8; victim_phys = phys.victims[v] + flip_offset_bytes + victim_byte;
  victim_bit = bit % 8; flips_to = (val >> bit) & 1\<close>.
\<close>

definition flip_event :: "u64 \<Rightarrow> u64 \<Rightarrow> u64 \<Rightarrow> nat \<Rightarrow> BitFlip" where
  "flip_event val victim_row_phys flip_offset_bytes b =
     \<lparr>bf_victim = victim_row_phys + flip_offset_bytes + of_nat (b div 8),
      bf_bit = of_nat (b mod 8),
      bf_flipped_to = ucast (drop_bit b val AND 1)\<rparr>"

text \<open>
  \<^verbatim>\<open>for (uint8_t bit = 0; bit < 64; bit++) { flips_to = (val >> bit) & 1;
  if (((victim_init >> bit) & 1) == flips_to) continue; ... ++bitflips; }\<close>
  The counter stays below 65, so it never wraps in its 8 bits.
\<close>

function scan_bits :: "u64 \<Rightarrow> u64 \<Rightarrow> u64 \<Rightarrow> u64 \<Rightarrow> nat \<Rightarrow> BitFlip list" where
  "scan_bits vinit val victim_row_phys flip_offset_bytes b =
     (if b < 64 then
        (if drop_bit b vinit AND 1 = drop_bit b val AND 1
         then scan_bits vinit val victim_row_phys flip_offset_bytes (b + 1)
         else flip_event val victim_row_phys flip_offset_bytes b
              # scan_bits vinit val victim_row_phys flip_offset_bytes (b + 1))
      else [])"
  by pat_completeness auto
termination
  by (relation "measure (\<lambda>(i, v, p, off, b). 64 - b)") auto

declare scan_bits.simps [simp del]

text \<open>
  The body of the loop over the words of one victim row.  \<^verbatim>\<open>rd\<close> is the memory after
  hammering, read as 64-bit words at virtual addresses; \<^verbatim>\<open>k\<close> is the index of the word, so
  \<^verbatim>\<open>addr = victim + 8 * k\<close> and \<^verbatim>\<open>flip_offset_bytes = addr - victim\<close>.
\<close>

definition scan_word :: "u64 \<Rightarrow> (u64 \<Rightarrow> u64) \<Rightarrow> u64 \<Rightarrow> u64 \<Rightarrow> nat \<Rightarrow> BitFlip list" where
  "scan_word vinit rd victim_row_phys victim k =
     (let addr = victim + 8 * of_nat k;
          val = rd addr
      in if val = vinit then []
         else scan_bits vinit val victim_row_phys (addr - victim) 0)"

text \<open>\<^verbatim>\<open>for (uint64_t *addr = victim; addr < victim_end; addr++)\<close> with
  \<^verbatim>\<open>victim_end = victim + row_size\<close>: \<^verbatim>\<open>row_size / 8\<close> words.\<close>

definition scan_row :: "u64 \<Rightarrow> (u64 \<Rightarrow> u64) \<Rightarrow> u64 \<Rightarrow> u64 \<Rightarrow> BitFlip list" where
  "scan_row vinit rd victim_row_phys victim =
     concat (map (scan_word vinit rd victim_row_phys victim) [0..<unat row_size div 8])"

text \<open>\<^verbatim>\<open>for (std::size_t v = 0; v < phys.victims.size(); v++)\<close>: all events of one check, in
  the order in which they are emitted.\<close>

definition check_flips :: "u64 \<Rightarrow> (u64 \<Rightarrow> u64) \<Rightarrow> BitFlipper \<Rightarrow> BitFlip list" where
  "check_flips vinit rd bf =
     concat (map (\<lambda>v. scan_row vinit rd (victims (phys bf) ! v) (virt_victims bf ! v))
               [0..<length (victims (phys bf))])"

text \<open>\<^verbatim>\<open>return bitflips > 0;\<close>\<close>

definition flips_found :: "u64 \<Rightarrow> (u64 \<Rightarrow> u64) \<Rightarrow> BitFlipper \<Rightarrow> bool" where
  "flips_found vinit rd bf = (0 < length (check_flips vinit rd bf))"

text \<open>A memory whose word at virtual address \<^verbatim>\<open>0x7f0000005010\<close> reads \<^verbatim>\<open>0x100\<close>.\<close>

definition memory_ex :: "u64 \<Rightarrow> u64" where
  "memory_ex a = (if a = 0x7f0000005010 then 0x100 else 0)"

section \<open>Non-contiguous flip finder (noncontiguous\_flip\_finder.h, noncontiguous\_flip\_finder.cpp)\<close>

text \<open>
  Why a call does not return normally: \<^verbatim>\<open>std::map::at\<close> throws \<^verbatim>\<open>std::out_of_range\<close>, or the
  behaviour is undefined (an address translation without a defined result, \<^verbatim>\<open>addrs.aggs[0]\<close>
  on an empty vector).
\<close>

datatype finder_fault = Fault_out_of_range | Fault_undefined

text \<open>
  What \<^verbatim>\<open>hammer\<close> did with a window: returned early because a row is missing, logged
  ``Could not find physical pages'', or built a flipper with resolved pages and called its
  \<^verbatim>\<open>hammer()\<close>.
\<close>

datatype hammer_outcome = Window_skipped | Pages_not_found | Window_hammered BitFlipper

text \<open>
  \<^verbatim>\<open>std::map<bank_t, std::set<row_t>> missing_rows\<close>: each set is given by its elements in
  iteration order, which for \<^verbatim>\<open>std::set\<close> is ascending.  \<^verbatim>\<open>finder\<close> and \<^verbatim>\<open>pattern\<close> are the
  members \<^verbatim>\<open>finder\<close> and \<^verbatim>\<open>hammer_pattern\<close> of the base class \<^verbatim>\<open>FlipFinder\<close>.
\<close>

record NoncontiguousFlipFinder =
  finder :: PhysPageFinder
  pattern :: "bool list"
  missing_rows :: "u64 \<rightharpoonup> u64 list"

text \<open>
  \<^verbatim>\<open>const auto lb = missing_rows.at(bank).lower_bound(first_row - padding);
  return lb != missing_rows.at(bank).end() && *lb <= last_row + padding;\<close>
  \<^verbatim>\<open>lower_bound\<close> is the first element, in ascending order, that is not less than the key;
  \<^verbatim>\<open>padding\<close> is the \<^verbatim>\<open>uint32_t\<close> \<^verbatim>\<open>config.row_padding\<close> and both operations are unsigned
  64-bit.
\<close>

definition is_any_row_missing ::
  "'a Config_scheme \<Rightarrow> NoncontiguousFlipFinder \<Rightarrow> u64 \<Rightarrow> u64 \<Rightarrow> u64 \<Rightarrow> finder_fault + bool" where
  "is_any_row_missing cfg ff b first_row last_row =
     (case missing_rows ff b of
        None \<Rightarrow> Inl Fault_out_of_range
      | Some rows \<Rightarrow>
          (case List.find (\<lambda>r. first_row - ucast (row_padding cfg) \<le> r) rows of
             None \<Rightarrow> Inr False
           | Some lb \<Rightarrow> Inr (lb \<le> last_row + ucast (row_padding cfg))))"

text \<open>
  \<^verbatim>\<open>for (bool is_agg : hammer_pattern) { dram.row = first_victim + offset;
  phys = dram.phys(); (is_agg ? addrs.aggs : addrs.victims).push_back(phys); ++offset; }\<close>
  with \<^verbatim>\<open>uint32_t offset\<close> and \<^verbatim>\<open>DRAMAddr dram(bank, 0, 0)\<close>.
\<close>

fun pattern_addrs ::
  "DRAMLayout \<Rightarrow> u64 \<Rightarrow> u64 \<Rightarrow> bool list \<Rightarrow> u32 \<Rightarrow> HammerAddrs \<Rightarrow> HammerAddrs option" where
  "pattern_addrs L b first_victim [] offset addrs = Some addrs"
| "pattern_addrs L b first_victim (is_agg # rest) offset addrs =
     (case DRAMAddr_phys L \<lparr>bank = b, row = first_victim + ucast offset, col = 0\<rparr> of
        None \<Rightarrow> None
      | Some p \<Rightarrow>
          pattern_addrs L b first_victim rest (offset + 1)
            (if is_agg then addrs\<lparr>aggs := aggs addrs @ [p]\<rparr>
             else addrs\<lparr>victims := victims addrs @ [p]\<rparr>))"

text \<open>
  \<^verbatim>\<open>bool NoncontiguousFlipFinder::hammer(bank, first_victim, last_victim) const\<close>: the
  returned flag (``the experiment should be continued'') and what was done.  \<^verbatim>\<open>do_exit\<close> is
  the value of the global flag when it is read at the end.  The \<^verbatim>\<open>log_info\<close> call before
  \<^verbatim>\<open>flipper.hammer()\<close> evaluates \<^verbatim>\<open>DRAMAddr(addrs.aggs[0])\<close> and
  \<^verbatim>\<open>DRAMAddr(addrs.aggs[addrs.aggs.size() - 1])\<close>.
\<close>

definition hammer ::
  "'a Config_scheme \<Rightarrow> NoncontiguousFlipFinder \<Rightarrow> bool \<Rightarrow> u64 \<Rightarrow> u64 \<Rightarrow> u64
     \<Rightarrow> finder_fault + bool \<times> hammer_outcome" where
  "hammer cfg ff do_exit b first_victim last_victim =
     (case is_any_row_missing cfg ff b first_victim last_victim of
        Inl e \<Rightarrow> Inl e
      | Inr True \<Rightarrow> Inr (True, Window_skipped)
      | Inr False \<Rightarrow>
          (case pattern_addrs (dram_layout cfg) b first_victim (pattern ff) 0
                  \<lparr>aggs = [], victims = []\<rparr> of
             None \<Rightarrow> Inl Fault_undefined
           | Some addrs \<Rightarrow>
               if \<not> fst (find_pages (finder ff) (BitFlipper_new addrs))
               then Inr (False, Pages_not_found)
               else if aggs addrs = [] then Inl Fault_undefined
               else if DRAMAddr_of_phys (dram_layout cfg) (hd (aggs addrs)) = None
                     \<or> DRAMAddr_of_phys (dram_layout cfg) (last (aggs addrs)) = None
               then Inl Fault_undefined
               else Inr (\<not> do_exit,
                         Window_hammered (snd (find_pages (finder ff) (BitFlipper_new addrs))))))"

text \<open>
  A page map that owns both pages of rows 5 and 7 of bank 0 under the default layout (frames
  340, 341 and 476, 477) and neither page of row 6 (frames 408, 409), the finder state that
  goes with it, and the pattern victim, aggressor, victim.
\<close>

definition finder_low :: PhysPageFinder where
  "finder_low = \<lparr>mem = 0x7f0000000000, pagemap = [340 \<mapsto> 0, 341 \<mapsto> 1, 476 \<mapsto> 2, 477 \<mapsto> 3]\<rparr>"

definition flip_finder_ex :: NoncontiguousFlipFinder where
  "flip_finder_ex = \<lparr>finder = finder_low, pattern = [False, True, False],
                      missing_rows = [0 \<mapsto> [6]]\<rparr>"

section \<open>Hammer pattern (hammer\_pattern.h)\<close>

text \<open>
  Modelled from the spec: hammer\_pattern.cpp, which defines the constructor
  \<^verbatim>\<open>HammerPattern(const std::string &description, uint32_t &aggressors_rows)\<close> and its helpers
  \<^verbatim>\<open>count_char_in_description\<close>, \<^verbatim>\<open>validate_description\<close>, \<^verbatim>\<open>generate_random_fill_up\<close> and
  \<^verbatim>\<open>create_pattern\<close>, is not among the sources; only hammer\_pattern.h and the comment on
  \<^verbatim>\<open>hammer_pattern\<close> in config.h are.  The definitions of this section follow the words of
  the specification and of that comment:
  ``Any pattern of v's (victims), a's (aggressors), x's (random row distances)'';
  ``v and a become literal victim/aggressor bits; x becomes a run of victim bits'';
  ``The pattern is repeated until number of a's >= aggressor_rows and a victim row is added
  at the end if the pattern does not end in v''; ``may increase the argument of
  aggressor_rows so that aggressor_rows is a multiple of the aggressors (1s) in
  description''.
\<close>

definition count_char_in_description :: "string \<Rightarrow> char \<Rightarrow> nat" where
  "count_char_in_description desc c = count_list desc c"

text \<open>
  Modelled from the spec: \<^verbatim>\<open>validate_description\<close> is missing; the tokens of a description
  are \<^verbatim>\<open>v\<close>, \<^verbatim>\<open>a\<close> and \<^verbatim>\<open>x\<close>.
\<close>

definition validate_description :: "string \<Rightarrow> bool" where
  "validate_description desc = (\<forall>c \<in> set desc. c = CHR ''v'' \<or> c = CHR ''a'' \<or> c = CHR ''x'')"

text \<open>
  Modelled from the spec: the expansion of one token is missing.  The state is the sequence
  built so far and the number of \<^verbatim>\<open>x\<close> tokens consumed; \<^verbatim>\<open>gap k\<close> is the random length drawn
  for the \<^verbatim>\<open>k\<close>-th \<^verbatim>\<open>x\<close> token (\<^verbatim>\<open>generate_random_fill_up\<close> is missing, so the lengths are a
  parameter).
\<close>

definition pattern_token :: "(nat \<Rightarrow> nat) \<Rightarrow> char \<Rightarrow> bool list \<times> nat \<Rightarrow> bool list \<times> nat" where
  "pattern_token gap c st =
     (if c = CHR ''a'' then (fst st @ [True], snd st)
      else if c = CHR ''x'' then (fst st @ replicate (gap (snd st)) False, snd st + 1)
      else (fst st @ [False], snd st))"

text \<open>Modelled from the spec: one repetition of the template (missing from the sources).\<close>

definition append_period :: "(nat \<Rightarrow> nat) \<Rightarrow> string \<Rightarrow> bool list \<times> nat \<Rightarrow> bool list \<times> nat" where
  "append_period gap desc st = fold (pattern_token gap) desc st"

text \<open>
  Modelled from the spec: the loop of the missing \<^verbatim>\<open>create_pattern\<close>, ``repeated until number
  of a's >= aggressor_rows''.  A template without \<^verbatim>\<open>a\<close> never gets there: the loop is given
  fuel, and \<open>None\<close> stands for not returning.
\<close>

fun repeat_template ::
  "(nat \<Rightarrow> nat) \<Rightarrow> string \<Rightarrow> nat \<Rightarrow> nat \<Rightarrow> bool list \<times> nat \<Rightarrow> (bool list \<times> nat) option" where
  "repeat_template gap desc n fuel st =
     (if n \<le> count_list (fst st) True then Some st
      else (case fuel of
              0 \<Rightarrow> None
            | Suc fuel' \<Rightarrow> repeat_template gap desc n fuel' (append_period gap desc st)))"

text \<open>
  Modelled from the spec: ``a victim row is added at the end if the pattern does not end in
  v'' (the step is missing from the sources).
\<close>

definition trailing_victim :: "bool list \<Rightarrow> bool list" where
  "trailing_victim bs = (if bs = [] \<or> last bs then bs @ [False] else bs)"

text \<open>
  Modelled from the spec: the missing constructor, as the pattern and the count of
  aggressors reported back to the caller.  As many repetitions as aggressors requested
  always suffice when the template has an \<^verbatim>\<open>a\<close>.
\<close>

definition create_pattern :: "(nat \<Rightarrow> nat) \<Rightarrow> string \<Rightarrow> nat \<Rightarrow> (HammerPattern \<times> nat) option" where
  "create_pattern gap desc requested =
     (if validate_description desc then
        (case repeat_template gap desc requested requested ([], 0) of
           None \<Rightarrow> None
         | Some st \<Rightarrow>
             Some (\<lparr>bits = trailing_victim (fst st), description = desc\<rparr>,
                   count_list (fst st) True))
      else None)"

text \<open>Gap lengths for the examples: every \<^verbatim>\<open>x\<close> expands to nothing.\<close>

definition no_gaps :: "nat \<Rightarrow> nat" where
  "no_gaps k = 0"

section \<open>Facts about the page finder\<close>

lemma mod_2_64_mod_4096: "(k::int) mod 18446744073709551616 mod 4096 = k mod 4096"
  by (rule mod_mod_cancel) simp

lemma page_multiple_masked: "(m + x * 4096) AND mask 12 = (m :: u64) AND mask 12"
  by (simp only: and_mask_mod_2p uint_word_ariths) (simp add: mod_2_64_mod_4096 mod_simps)

lemma page_size_minus_1: "page_size - 1 = mask 12"
  by (simp add: page_size_def mask_eq_exp_minus_1)

lemma find_page_present:
  "pagemap f (pfn_key p) = Some off \<Longrightarrow> find_page f p v = (True, mem f + ucast off * page_size)"
  by (simp add: find_page_def)

lemma find_page_missing:
  "pagemap f (pfn_key p) = None \<Longrightarrow> find_page f p v = (False, v)"
  by (simp add: find_page_def)

text \<open>
  C3 (as stated): for a physical address whose frame is in the map, \<^verbatim>\<open>find_page\<close> returns
  true and the virtual address has the in-page offset of the physical address.  The code
  returns the start of the page, \<^verbatim>\<open>mem + offset * page_size\<close>; at \<^verbatim>\<open>phys = 0x1008\<close> with
  frame 1 mapped to page 5 of a page-aligned region the low twelve bits of the result are 0,
  not 8.
\<close>

theorem C3_offset_counterexample:
  "find_page finder_ex 0x1008 0 = (True, 0x7f0000005000)
   \<and> snd (find_page finder_ex 0x1008 0) AND (page_size - 1) \<noteq> 0x1008 AND (page_size - 1)"
  by (simp add: find_page_def finder_ex_def pfn_key_def page_size_def)

text \<open>
  C3 (amended): for a physical address whose frame is in the map, \<^verbatim>\<open>find_page\<close> returns
  true and the virtual address of the page, \<^verbatim>\<open>mem + pagemap[pfn] * page_size\<close>, whatever
  the in-page offset of the physical address; its low bits are those of \<^verbatim>\<open>mem\<close>:
  \<^verbatim>\<open>virt & (page_size - 1) == mem & (page_size - 1)\<close>.
\<close>

theorem C3_find_page_returns_page_start:
  assumes "pagemap f (pfn_key phys_addr) = Some off"
  shows "find_page f phys_addr v = (True, mem f + ucast off * page_size)
       \<and> snd (find_page f phys_addr v) AND (page_size - 1) = mem f AND (page_size - 1)"
proof -
  have r: "find_page f phys_addr v = (True, mem f + ucast off * page_size)"
    using assms by (rule find_page_present)
  have "(mem f + ucast off * 4096) AND mask 12 = mem f AND mask 12"
    by (rule page_multiple_masked)
  then have "snd (find_page f phys_addr v) AND (page_size - 1) = mem f AND (page_size - 1)"
    by (simp add: r page_size_minus_1) (simp add: page_size_def)
  with r show ?thesis by simp
qed

theorem C3_find_page_witness:
  "pagemap finder_ex (pfn_key 0x1008) = Some 5
   \<and> find_page finder_ex 0x1008 0 = (True, mem finder_ex + ucast (5 :: u32) * page_size)
   \<and> snd (find_page finder_ex 0x1008 0) AND (page_size - 1) = mem finder_ex AND (page_size - 1)"
proof -
  have h: "pagemap finder_ex (pfn_key 0x1008) = Some 5"
    by (simp add: finder_ex_def pfn_key_def page_size_def)
  show ?thesis
    using h C3_find_page_returns_page_start [OF h, of 0] by blast
qed

section \<open>Facts about \<^verbatim>\<open>find_pages\<close>\<close>

lemma find_page_eq:
  "find_page f p v = (present f p, if present f p then page_virt f p else v)"
  by (auto simp: find_page_def present_def page_virt_def split: option.splits)

lemma find_step_fst: "fst (find_step f ps i st) = (fst st \<and> present f (ps ! i))"
  by (simp add: find_step_def find_page_eq Let_def)

lemma find_step_length: "length (snd (find_step f ps i st)) = length (snd st)"
  by (simp add: find_step_def Let_def)

lemma find_step_nth:
  "j < length (snd st) \<Longrightarrow>
   snd (find_step f ps i st) ! j =
     (if j = i \<and> present f (ps ! i) then page_virt f (ps ! i) else snd st ! j)"
  by (auto simp: find_step_def find_page_eq Let_def nth_list_update)

lemma find_loop_fst:
  "fst (fold (find_step f ps) [0..<n] st) = (fst st \<and> (\<forall>i<n. present f (ps ! i)))"
  by (induction n) (auto simp: find_step_fst less_Suc_eq)

lemma find_loop_length:
  "length (snd (fold (find_step f ps) [0..<n] st)) = length (snd st)"
  by (induction n) (simp_all add: find_step_length)

lemma find_loop_nth:
  "j < length (snd st) \<Longrightarrow>
   snd (fold (find_step f ps) [0..<n] st) ! j =
     (if j < n \<and> present f (ps ! j) then page_virt f (ps ! j) else snd st ! j)"
proof (induction n)
  case 0
  then show ?case by simp
next
  case (Suc n)
  then show ?case
    by (auto simp: find_step_nth find_loop_length less_Suc_eq)
qed

lemma find_pages_result:
  "fst (find_pages f bf) =
     ((\<forall>i<length (aggs (phys bf)). present f (aggs (phys bf) ! i))
      \<and> (\<forall>i<length (victims (phys bf)). present f (victims (phys bf) ! i)))"
  by (simp add: find_pages_def Let_def find_loop_def find_loop_fst)

lemma find_pages_phys: "phys (snd (find_pages f bf)) = phys bf"
  by (simp add: find_pages_def Let_def)

lemma find_pages_virt_aggs:
  "i < length (virt_aggs bf) \<Longrightarrow>
   virt_aggs (snd (find_pages f bf)) ! i =
     (if i < length (aggs (phys bf)) \<and> present f (aggs (phys bf) ! i)
      then page_virt f (aggs (phys bf) ! i) else virt_aggs bf ! i)"
  by (simp add: find_pages_def Let_def find_loop_def find_loop_nth)

lemma find_pages_virt_victims:
  "i < length (virt_victims bf) \<Longrightarrow>
   virt_victims (snd (find_pages f bf)) ! i =
     (if i < length (victims (phys bf)) \<and> present f (victims (phys bf) ! i)
      then page_virt f (victims (phys bf) ! i) else virt_victims bf ! i)"
  by (simp add: find_pages_def Let_def find_loop_def find_loop_nth)

text \<open>
  C5 (as stated): if some aggressor or victim address is missing from the PageMap,
  \<^verbatim>\<open>find_pages\<close> returns false and no virtual-address entry is modified.  The loop does not
  stop at the first miss and nothing is rolled back: with aggressors \<^verbatim>\<open>0x1000\<close> (frame 1,
  mapped) and \<^verbatim>\<open>0x2000\<close> (frame 2, missing) the result is false and the first entry has been
  overwritten.
\<close>

theorem C5_partial_state_counterexample:
  "fst (find_pages finder_ex flipper_ex) = False
   \<and> virt_aggs flipper_ex = [0, 0]
   \<and> virt_aggs (snd (find_pages finder_ex flipper_ex)) = [0x7f0000005000, 0]"
  by (simp add: find_pages_def find_loop_def find_step_def find_page_def finder_ex_def
      flipper_ex_def BitFlipper_new_def pfn_key_def page_size_def upt_rec)

text \<open>
  C5 (amended): if some aggressor or victim address is missing from the PageMap,
  \<^verbatim>\<open>find_pages\<close> returns false; the physical addresses are untouched, every entry whose
  address is missing keeps its previous value, and every entry whose address is present is
  overwritten with the virtual address of its page.
\<close>

theorem C5_find_pages_missing:
  assumes "length (virt_aggs bf) = length (aggs (phys bf))"
    and "length (virt_victims bf) = length (victims (phys bf))"
    and "\<exists>p \<in> set (aggs (phys bf)) \<union> set (victims (phys bf)). \<not> present f p"
  shows "fst (find_pages f bf) = False
     \<and> phys (snd (find_pages f bf)) = phys bf
     \<and> (\<forall>i<length (aggs (phys bf)).
          virt_aggs (snd (find_pages f bf)) ! i =
            (if present f (aggs (phys bf) ! i) then page_virt f (aggs (phys bf) ! i)
             else virt_aggs bf ! i))
     \<and> (\<forall>i<length (victims (phys bf)).
          virt_victims (snd (find_pages f bf)) ! i =
            (if present f (victims (phys bf) ! i) then page_virt f (victims (phys bf) ! i)
             else virt_victims bf ! i))"
proof -
  from assms(3) have "\<not> fst (find_pages f bf)"
    unfolding find_pages_result by (auto simp: in_set_conv_nth)
  moreover have "\<forall>i<length (aggs (phys bf)).
          virt_aggs (snd (find_pages f bf)) ! i =
            (if present f (aggs (phys bf) ! i) then page_virt f (aggs (phys bf) ! i)
             else virt_aggs bf ! i)"
    using assms(1) by (simp add: find_pages_virt_aggs)
  moreover have "\<forall>i<length (victims (phys bf)).
          virt_victims (snd (find_pages f bf)) ! i =
            (if present f (victims (phys bf) ! i) then page_virt f (victims (phys bf) ! i)
             else virt_victims bf ! i)"
    using assms(2) by (simp add: find_pages_virt_victims)
  ultimately show ?thesis
    by (simp add: find_pages_phys)
qed

theorem C5_find_pages_missing_witness:
  "length (virt_aggs flipper_ex) = length (aggs (phys flipper_ex))
   \<and> length (virt_victims flipper_ex) = length (victims (phys flipper_ex))
   \<and> \<not> present finder_ex 0x2000
   \<and> fst (find_pages finder_ex flipper_ex) = False
   \<and> virt_aggs (snd (find_pages finder_ex flipper_ex)) ! 1 = virt_aggs flipper_ex ! 1"
proof -
  have la: "length (virt_aggs flipper_ex) = length (aggs (phys flipper_ex))"
    by (simp add: flipper_ex_def BitFlipper_new_def)
  have lv: "length (virt_victims flipper_ex) = length (victims (phys flipper_ex))"
    by (simp add: flipper_ex_def BitFlipper_new_def)
  have np: "\<not> present finder_ex 0x2000"
    by (simp add: present_def finder_ex_def pfn_key_def page_size_def)
  have a1: "aggs (phys flipper_ex) ! 1 = 0x2000" and l2: "length (aggs (phys flipper_ex)) = 2"
    by (simp_all add: flipper_ex_def BitFlipper_new_def)
  have miss: "\<exists>p \<in> set (aggs (phys flipper_ex)) \<union> set (victims (phys flipper_ex)).
      \<not> present finder_ex p"
    using np by (simp add: flipper_ex_def BitFlipper_new_def)
  note t = C5_find_pages_missing [OF la lv miss]
  from t have "fst (find_pages finder_ex flipper_ex) = False" by blast
  moreover from t have "virt_aggs (snd (find_pages finder_ex flipper_ex)) ! 1 =
      (if present finder_ex (aggs (phys flipper_ex) ! 1)
       then page_virt finder_ex (aggs (phys flipper_ex) ! 1) else virt_aggs flipper_ex ! 1)"
    using l2 by simp
  ultimately show ?thesis
    using la lv np a1 by simp
qed

section \<open>Facts about the flip scan\<close>

lemma low_bit_eq_iff:
  "(drop_bit b x AND 1 = drop_bit b y AND 1) = (bit x b = bit (y :: u64) b)"
  by (simp add: and_one_eq bit_iff_odd_drop_bit)
     (metis zero_neq_one odd_iff_mod_2_eq_one not_mod_2_eq_0_eq_1)

lemma low_bit_of_bool: "drop_bit b (x :: u64) AND 1 = of_bool (bit x b)"
  by (simp add: and_one_eq bit_iff_odd_drop_bit mod_2_eq_odd)

lemma scan_bits_eq:
  "scan_bits i v p off b =
     map (flip_event v p off) (filter (\<lambda>n. bit v n \<noteq> bit i n) [b..<64])"
proof (induction i v p off b rule: scan_bits.induct)
  case (1 i v p off b)
  show ?case
  proof (cases "b < 64")
    case True
    then have u: "[b..<64] = b # [b + 1..<64]" by (simp add: upt_conv_Cons)
    from True 1 show ?thesis
      by (subst scan_bits.simps) (auto simp: u low_bit_eq_iff)
  next
    case False
    then show ?thesis by (subst scan_bits.simps) simp
  qed
qed

lemma scan_bits_xor:
  "scan_bits i v p off 0 = map (flip_event v p off) (filter (bit (v XOR i)) [0..<64])"
proof -
  have "bit (v XOR i) = (\<lambda>n. bit v n \<noteq> bit i n)"
    by (auto simp: fun_eq_iff bit_xor_iff)
  then show ?thesis by (simp add: scan_bits_eq)
qed

lemma scan_word_eq:
  "scan_word i rd p virt k =
     map (flip_event (rd (virt + 8 * of_nat k)) p (8 * of_nat k))
       (filter (bit (rd (virt + 8 * of_nat k) XOR i)) [0..<64])"
proof (cases "rd (virt + 8 * of_nat k) = i")
  case True
  then show ?thesis by (simp add: scan_word_def)
next
  case False
  then show ?thesis by (simp add: scan_word_def Let_def scan_bits_xor)
qed

lemma row_words: "unat row_size div 8 = 1024"
  by (simp add: row_size_def)

lemma scan_row_words:
  "scan_row vinit rd p virt = concat (map (scan_word vinit rd p virt) [0..<1024])"
  by (simp only: scan_row_def row_words)

lemma scan_row_length:
  "length (scan_row vinit rd p virt)
     = sum_list (map (\<lambda>k. count_one_bits (rd (virt + 8 * of_nat k) XOR vinit)) [0..<1024])"
  unfolding scan_row_words length_concat map_map comp_def
  by (simp only: scan_word_eq length_map count_one_bits_def)

lemma scan_row_directions:
  "map bf_flipped_to (scan_row vinit rd p virt)
     = concat (map (\<lambda>k. map (\<lambda>b. ucast (drop_bit b (rd (virt + 8 * of_nat k)) AND 1))
                            (filter (bit (rd (virt + 8 * of_nat k) XOR vinit)) [0..<64]))
                 [0..<1024])"
proof -
  have "map bf_flipped_to (scan_word vinit rd p virt k)
      = map (\<lambda>b. ucast (drop_bit b (rd (virt + 8 * of_nat k)) AND 1))
          (filter (bit (rd (virt + 8 * of_nat k) XOR vinit)) [0..<64])" for k
    by (simp add: scan_word_eq flip_event_def comp_def)
  then show ?thesis
    unfolding scan_row_words map_concat map_map comp_def by (simp only:)
qed

lemma check_flips_length:
  "length (check_flips vinit rd bf)
     = sum_list (map (\<lambda>v. sum_list (map (\<lambda>k. count_one_bits
                          (rd (virt_victims bf ! v + 8 * of_nat k) XOR vinit)) [0..<1024]))
                 [0..<length (victims (phys bf))])"
  unfolding check_flips_def length_concat map_map comp_def
  by (simp only: scan_row_length)

text \<open>
  C4: the check after hammering scans every victim row of the flipper, and in each row the
  1024 words at \<^verbatim>\<open>victim + 8 * k\<close>, in this order, and emits for each word \<^verbatim>\<open>w\<close> exactly the
  events of that word.  For every word the number of events is \<^verbatim>\<open>popcount(w ^ victim_init)\<close>
  and the directions of the events are, in order, \<^verbatim>\<open>(w >> bit) & 1\<close> for the bit positions
  at which \<^verbatim>\<open>w\<close> and \<^verbatim>\<open>victim_init\<close> differ (for \<^verbatim>\<open>w = victim_init\<close> there are none).  Hence a
  row emits the sum of the popcounts of its words, with the directions of the words one
  after the other, a check emits the sum over its victim rows, and the check reports flips
  exactly when that sum is positive.
\<close>

theorem C4_flip_events:
  "length (scan_word vinit rd p virt k)
     = count_one_bits (rd (virt + 8 * of_nat k) XOR vinit)
   \<and> map bf_flipped_to (scan_word vinit rd p virt k)
     = map (\<lambda>b. ucast (drop_bit b (rd (virt + 8 * of_nat k)) AND 1))
         (filter (bit (rd (virt + 8 * of_nat k) XOR vinit)) [0..<64])
   \<and> scan_row vinit rd p virt = concat (map (scan_word vinit rd p virt) [0..<1024])
   \<and> length (scan_row vinit rd p virt)
     = sum_list (map (\<lambda>k. count_one_bits (rd (virt + 8 * of_nat k) XOR vinit)) [0..<1024])
   \<and> map bf_flipped_to (scan_row vinit rd p virt)
     = concat (map (\<lambda>k. map (\<lambda>b. ucast (drop_bit b (rd (virt + 8 * of_nat k)) AND 1))
                            (filter (bit (rd (virt + 8 * of_nat k) XOR vinit)) [0..<64]))
                 [0..<1024])
   \<and> check_flips vinit rd bf
     = concat (map (\<lambda>v. scan_row vinit rd (victims (phys bf) ! v) (virt_victims bf ! v))
                 [0..<length (victims (phys bf))])
   \<and> length (check_flips vinit rd bf)
     = sum_list (map (\<lambda>v. sum_list (map (\<lambda>k. count_one_bits
                          (rd (virt_victims bf ! v + 8 * of_nat k) XOR vinit)) [0..<1024]))
                 [0..<length (victims (phys bf))])
   \<and> flips_found vinit rd bf
     = (0 < sum_list (map (\<lambda>v. sum_list (map (\<lambda>k. count_one_bits
                          (rd (virt_victims bf ! v + 8 * of_nat k) XOR vinit)) [0..<1024]))
                 [0..<length (victims (phys bf))]))"
proof -
  have w: "length (scan_word vinit rd p virt k)
     = count_one_bits (rd (virt + 8 * of_nat k) XOR vinit)
   \<and> map bf_flipped_to (scan_word vinit rd p virt k)
     = map (\<lambda>b. ucast (drop_bit b (rd (virt + 8 * of_nat k)) AND 1))
         (filter (bit (rd (virt + 8 * of_nat k) XOR vinit)) [0..<64])"
    by (simp add: scan_word_eq count_one_bits_def flip_event_def comp_def)
  have c: "check_flips vinit rd bf
     = concat (map (\<lambda>v. scan_row vinit rd (victims (phys bf) ! v) (virt_victims bf ! v))
                 [0..<length (victims (phys bf))])"
    by (simp only: check_flips_def)
  have f: "flips_found vinit rd bf
     = (0 < sum_list (map (\<lambda>v. sum_list (map (\<lambda>k. count_one_bits
                          (rd (virt_victims bf ! v + 8 * of_nat k) XOR vinit)) [0..<1024]))
                 [0..<length (victims (phys bf))]))"
    by (simp only: flips_found_def check_flips_length)
  from w scan_row_words [of vinit rd p virt] scan_row_length [of vinit rd p virt]
    scan_row_directions [of vinit rd p virt] c check_flips_length [of vinit rd bf] f
  show ?thesis by blast
qed

text \<open>
  C6 (as stated): every event carries a bit index in 0..63 that identifies the flipped bit
  within the 64-bit word, and the physical address of that word.  The code splits the
  position into a byte and a bit within the byte: when bit 8 of the word at offset 16 of the
  row at \<^verbatim>\<open>0x100000\<close> flips, the event carries bit index 0 and address \<^verbatim>\<open>0x100011\<close>, not bit
  index 8 and the word's address \<^verbatim>\<open>0x100010\<close>.
\<close>

theorem C6_bit_index_counterexample:
  "scan_word 0 memory_ex 0x100000 0x7f0000005000 2
     = [\<lparr>bf_victim = 0x100011, bf_bit = 0, bf_flipped_to = 1\<rparr>]
   \<and> memory_ex (0x7f0000005000 + 8 * 2) XOR 0 = push_bit 8 1"
  by (simp add: scan_word_def memory_ex_def scan_bits.simps flip_event_def)

text \<open>
  C6 (amended): every event emitted for the word with index \<^verbatim>\<open>k\<close> of a victim row
  belongs to a bit position \<^verbatim>\<open>b\<close> in 0..63 at which the word differs from \<^verbatim>\<open>victim_init\<close>;
  it carries the physical address of the byte that holds the bit
  (row address + \<^verbatim>\<open>flip_offset_bytes\<close> + \<^verbatim>\<open>b / 8\<close>, where \<^verbatim>\<open>flip_offset_bytes = 8 * k\<close>), the
  index of the bit within that byte (\<^verbatim>\<open>b % 8\<close>, in 0..7) and the direction
  (1 if the bit is now set, 0 otherwise).
\<close>

theorem C6_event_fields:
  assumes "ev \<in> set (scan_word vinit rd p virt k)"
  shows "\<exists>b<64. bit (rd (virt + 8 * of_nat k) XOR vinit) b
           \<and> bf_victim ev = p + 8 * of_nat k + of_nat (b div 8)
           \<and> unat (bf_bit ev) = b mod 8
           \<and> unat (bf_bit ev) < 8
           \<and> bf_flipped_to ev = (if bit (rd (virt + 8 * of_nat k)) b then 1 else 0)"
proof -
  from assms obtain b where b: "b < 64" "bit (rd (virt + 8 * of_nat k) XOR vinit) b"
    and ev: "ev = flip_event (rd (virt + 8 * of_nat k)) p (8 * of_nat k) b"
    unfolding scan_word_eq by auto
  have "unat (of_nat (b mod 8) :: u8) = b mod 8"
    by (simp add: unat_of_nat take_bit_nat_eq_self_iff)
  then show ?thesis
    using b ev by (auto simp: flip_event_def low_bit_of_bool intro!: exI [of _ b])
qed

theorem C6_event_fields_witness:
  "\<lparr>bf_victim = 0x100011, bf_bit = 0, bf_flipped_to = 1\<rparr>
      \<in> set (scan_word 0 memory_ex 0x100000 0x7f0000005000 2)
   \<and> unat (bf_bit \<lparr>bf_victim = 0x100011, bf_bit = 0, bf_flipped_to = 1\<rparr>) < 8"
proof -
  have h: "\<lparr>bf_victim = 0x100011, bf_bit = 0, bf_flipped_to = 1\<rparr>
      \<in> set (scan_word 0 memory_ex 0x100000 0x7f0000005000 2)"
    by (simp add: scan_word_def memory_ex_def scan_bits.simps flip_event_def)
  from C6_event_fields [OF h] have
    "unat (bf_bit \<lparr>bf_victim = 0x100011, bf_bit = 0, bf_flipped_to = 1\<rparr>) < 8"
    by blast
  with h show ?thesis by blast
qed

section \<open>Facts about configuration verification\<close>

lemma verify_banks_fields:
  "verify_banks cfg = Inr c1 \<Longrightarrow>
     test_max_rows c1 = test_max_rows cfg \<and> test_min_rows c1 = test_min_rows cfg
     \<and> row_padding c1 = row_padding cfg \<and> victim_init c1 = victim_init cfg
     \<and> aggressor_init c1 = aggressor_init cfg"
  by (auto simp: verify_banks_def split: option.splits if_splits)

lemma normalize_fields:
  "victim_init (fst (normalize_test_max_rows cfg)) = victim_init cfg
   \<and> aggressor_init (fst (normalize_test_max_rows cfg)) = aggressor_init cfg"
  by (simp add: normalize_test_max_rows_def)

lemma rebuild_fields:
  "rebuild_hammer_pattern ctor cfg = Inr c3 \<Longrightarrow>
     test_max_rows c3 = test_max_rows cfg \<and> victim_init c3 = victim_init cfg
     \<and> aggressor_init c3 = aggressor_init cfg"
  by (auto simp: rebuild_hammer_pattern_def split: sum.splits if_splits)

lemma default_aggressor_init_fields:
  "test_max_rows (default_aggressor_init cfg) = test_max_rows cfg
   \<and> victim_init (default_aggressor_init cfg) = victim_init cfg"
  by (simp add: default_aggressor_init_def)

lemma verify_values_InrD:
  assumes "verify_values ctor cfg = Inr (cfg', lg)"
  obtains c1 c3 where "verify_banks cfg = Inr c1"
    and "rebuild_hammer_pattern ctor (fst (normalize_test_max_rows c1)) = Inr c3"
    and "cfg' = default_aggressor_init c3"
    and "lg = snd (normalize_test_max_rows c1)"
  using assms
  by (auto simp: verify_values_def split: option.splits sum.splits if_splits)

lemma test_max_rows_lb_cong:
  "test_min_rows c1 = test_min_rows cfg \<Longrightarrow> row_padding c1 = row_padding cfg \<Longrightarrow>
   test_max_rows_lb c1 = test_max_rows_lb cfg"
  by (simp add: test_max_rows_lb_def)

lemma unat_add_exact:
  "unat (a :: u64) + y < 2 ^ 64 \<Longrightarrow> unat (b :: u64) = y \<Longrightarrow> unat (a + b) = unat a + y"
  by (simp add: unat_word_ariths)

lemma unat_double_exact: "unat (rp :: u32) < 2 ^ 31 \<Longrightarrow> unat (rp * 2) = 2 * unat rp"
  by (simp add: unat_word_ariths)

lemma unat_ucast_u32: "unat (ucast (x :: u32) :: u64) = unat x"
  using unsigned_less [of x, where ?'a = nat]
  by (simp add: unsigned_ucast_eq take_bit_nat_eq_self_iff)

lemma test_max_rows_lb_exact:
  assumes "unat (row_padding cfg) < 2 ^ 31"
    and "unat (test_min_rows cfg) + 2 * unat (row_padding cfg) < 2 ^ 64"
  shows "unat (test_max_rows_lb cfg) = unat (test_min_rows cfg) + 2 * unat (row_padding cfg)"
proof -
  have "unat (ucast (row_padding cfg * 2) :: u64) = 2 * unat (row_padding cfg)"
    using assms(1) by (simp only: unat_ucast_u32 unat_double_exact)
  with assms(2) show ?thesis
    unfolding test_max_rows_lb_def by (rule unat_add_exact)
qed

lemma test_max_rows_lb_of_nat:
  assumes "unat (row_padding cfg) < 2 ^ 31"
    and "unat (test_min_rows cfg) + 2 * unat (row_padding cfg) < 2 ^ 64"
  shows "test_max_rows_lb cfg
           = of_nat (unat (test_min_rows cfg) + 2 * unat (row_padding cfg))"
proof -
  have "test_max_rows_lb cfg = of_nat (unat (test_max_rows_lb cfg))" by simp
  then show ?thesis by (simp only: test_max_rows_lb_exact [OF assms])
qed

lemma unat_of_nat_u64: "n < 2 ^ 64 \<Longrightarrow> unat (of_nat n :: u64) = n"
  by (simp add: unat_of_nat take_bit_nat_eq_self_iff)

lemma normalize_raised:
  assumes "unat (row_padding cfg) < 2 ^ 31"
    and "unat (test_min_rows cfg) + 2 * unat (row_padding cfg) < 2 ^ 64"
    and "0 < unat (test_max_rows cfg)"
    and "unat (test_max_rows cfg) < unat (test_min_rows cfg) + 2 * unat (row_padding cfg)"
  shows "normalize_test_max_rows cfg =
           (cfg\<lparr>test_max_rows :=
                  of_nat (unat (test_min_rows cfg) + 2 * unat (row_padding cfg))\<rparr>,
            [Warn_test_max_rows_changed
               (of_nat (unat (test_min_rows cfg) + 2 * unat (row_padding cfg)))])"
proof -
  have "0 < test_max_rows cfg"
    using assms(3) by (simp add: word_less_nat_alt)
  moreover have "test_max_rows cfg < test_max_rows_lb cfg"
    using assms(4) test_max_rows_lb_exact [OF assms(1,2)] by (simp add: word_less_nat_alt)
  ultimately show ?thesis
    by (simp add: normalize_test_max_rows_def test_max_rows_lb_of_nat [OF assms(1,2)])
qed

lemma normalize_logged:
  "normalize_test_max_rows c = (c\<lparr>test_max_rows := v\<rparr>, [Warn_test_max_rows_changed v]) \<Longrightarrow>
   snd (normalize_test_max_rows c)
     = [Warn_test_max_rows_changed (test_max_rows (fst (normalize_test_max_rows c)))]"
  by simp

lemma normalize_unrestricted:
  "test_max_rows cfg = 0 \<Longrightarrow> normalize_test_max_rows cfg = (cfg, [])"
  by (simp add: normalize_test_max_rows_def)

lemma verify_values_test_max_rows:
  fixes cfg :: "'a Config_scheme"
  assumes "verify_values ctor cfg = Inr (cfg', lg)"
  obtains c1 :: "'a Config_scheme" where "test_max_rows c1 = test_max_rows cfg"
    and "test_min_rows c1 = test_min_rows cfg" and "row_padding c1 = row_padding cfg"
    and "test_max_rows cfg' = test_max_rows (fst (normalize_test_max_rows c1))"
    and "lg = snd (normalize_test_max_rows c1)"
proof -
  from assms obtain c1 c3 where c1: "verify_banks cfg = Inr c1"
    and c3: "rebuild_hammer_pattern ctor (fst (normalize_test_max_rows c1)) = Inr c3"
    and cfg': "cfg' = default_aggressor_init c3"
    and lg: "lg = snd (normalize_test_max_rows c1)"
    by (rule verify_values_InrD)
  have "test_max_rows cfg' = test_max_rows (fst (normalize_test_max_rows c1))"
    using rebuild_fields [OF c3] by (simp add: cfg' default_aggressor_init_fields)
  with verify_banks_fields [OF c1] lg show thesis by (intro that) simp_all
qed

text \<open>
  C9 (amended): for every configuration with
  \<^verbatim>\<open>0 < test_max_rows < test_min_rows + 2 * row_padding\<close>, where \<^verbatim>\<open>2 * row_padding\<close> is below
  \<open>2 ^ 32\<close> and the sum below \<open>2 ^ 64\<close>, the normalization step sets \<^verbatim>\<open>test_max_rows\<close> to exactly
  \<^verbatim>\<open>test_min_rows + 2 * row_padding\<close>, logs one warning with that value and changes no other
  field, and a verification that returns has that value and that warning.  For every
  configuration with \<^verbatim>\<open>test_max_rows = 0\<close> (``no restriction'') the step changes nothing and
  logs nothing, and a verification that returns still has \<^verbatim>\<open>test_max_rows = 0\<close> and an empty
  log.
\<close>

theorem C9_test_max_rows_raised:
  fixes cfg :: "'a Config_scheme"
  shows
  "(unat (row_padding cfg) < 2 ^ 31
      \<and> unat (test_min_rows cfg) + 2 * unat (row_padding cfg) < 2 ^ 64
      \<and> 0 < unat (test_max_rows cfg)
      \<and> unat (test_max_rows cfg) < unat (test_min_rows cfg) + 2 * unat (row_padding cfg)
    \<longrightarrow> normalize_test_max_rows cfg =
           (cfg\<lparr>test_max_rows :=
                  of_nat (unat (test_min_rows cfg) + 2 * unat (row_padding cfg))\<rparr>,
            [Warn_test_max_rows_changed
               (of_nat (unat (test_min_rows cfg) + 2 * unat (row_padding cfg)))])
        \<and> unat (test_max_rows (fst (normalize_test_max_rows cfg)))
            = unat (test_min_rows cfg) + 2 * unat (row_padding cfg)
        \<and> (\<forall>ctor cfg' lg. verify_values ctor cfg = Inr (cfg', lg) \<longrightarrow>
             unat (test_max_rows cfg')
               = unat (test_min_rows cfg) + 2 * unat (row_padding cfg)
             \<and> lg = [Warn_test_max_rows_changed (test_max_rows cfg')]))
   \<and> (test_max_rows cfg = 0
    \<longrightarrow> normalize_test_max_rows cfg = (cfg, [])
        \<and> (\<forall>ctor cfg' lg. verify_values ctor cfg = Inr (cfg', lg) \<longrightarrow>
             test_max_rows cfg' = 0 \<and> lg = []))"
proof -
  have raised: "normalize_test_max_rows c =
           (c\<lparr>test_max_rows :=
                  of_nat (unat (test_min_rows cfg) + 2 * unat (row_padding cfg))\<rparr>,
            [Warn_test_max_rows_changed
               (of_nat (unat (test_min_rows cfg) + 2 * unat (row_padding cfg)))])
        \<and> unat (test_max_rows (fst (normalize_test_max_rows c)))
            = unat (test_min_rows cfg) + 2 * unat (row_padding cfg)"
    if h: "unat (row_padding cfg) < 2 ^ 31"
      "unat (test_min_rows cfg) + 2 * unat (row_padding cfg) < 2 ^ 64"
      "0 < unat (test_max_rows cfg)"
      "unat (test_max_rows cfg) < unat (test_min_rows cfg) + 2 * unat (row_padding cfg)"
      and c: "test_max_rows c = test_max_rows cfg" "test_min_rows c = test_min_rows cfg"
        "row_padding c = row_padding cfg"
    for c :: "'a Config_scheme"
  proof -
    have n: "normalize_test_max_rows c =
           (c\<lparr>test_max_rows :=
                  of_nat (unat (test_min_rows c) + 2 * unat (row_padding c))\<rparr>,
            [Warn_test_max_rows_changed
               (of_nat (unat (test_min_rows c) + 2 * unat (row_padding c)))])"
      by (rule normalize_raised) (simp_all only: c h)
    have "unat (of_nat (unat (test_min_rows cfg) + 2 * unat (row_padding cfg)) :: u64)
            = unat (test_min_rows cfg) + 2 * unat (row_padding cfg)"
      using h(2) by (rule unat_of_nat_u64)
    with n show ?thesis by (simp add: c)
  qed
  have whole_raised: "unat (test_max_rows cfg')
               = unat (test_min_rows cfg) + 2 * unat (row_padding cfg)
             \<and> lg = [Warn_test_max_rows_changed (test_max_rows cfg')]"
    if h: "unat (row_padding cfg) < 2 ^ 31"
      "unat (test_min_rows cfg) + 2 * unat (row_padding cfg) < 2 ^ 64"
      "0 < unat (test_max_rows cfg)"
      "unat (test_max_rows cfg) < unat (test_min_rows cfg) + 2 * unat (row_padding cfg)"
      and v: "verify_values ctor cfg = Inr (cfg', lg)"
    for ctor cfg' lg
  proof -
    from v obtain c1 :: "'a Config_scheme" where c1: "test_max_rows c1 = test_max_rows cfg"
      "test_min_rows c1 = test_min_rows cfg" "row_padding c1 = row_padding cfg"
      and r: "test_max_rows cfg' = test_max_rows (fst (normalize_test_max_rows c1))"
        "lg = snd (normalize_test_max_rows c1)"
      by (rule verify_values_test_max_rows)
    from raised [OF h c1] have
      n: "normalize_test_max_rows c1 =
           (c1\<lparr>test_max_rows :=
                  of_nat (unat (test_min_rows cfg) + 2 * unat (row_padding cfg))\<rparr>,
            [Warn_test_max_rows_changed
               (of_nat (unat (test_min_rows cfg) + 2 * unat (row_padding cfg)))])"
      and u: "unat (test_max_rows (fst (normalize_test_max_rows c1)))
            = unat (test_min_rows cfg) + 2 * unat (row_padding cfg)"
      by blast+
    from u have "unat (test_max_rows cfg')
               = unat (test_min_rows cfg) + 2 * unat (row_padding cfg)"
      by (simp only: r(1))
    moreover from n have "lg = [Warn_test_max_rows_changed (test_max_rows cfg')]"
      unfolding r by (rule normalize_logged)
    ultimately show ?thesis by blast
  qed
  have whole_zero: "test_max_rows cfg' = 0 \<and> lg = []"
    if z: "test_max_rows cfg = 0" and v: "verify_values ctor cfg = Inr (cfg', lg)"
    for ctor cfg' lg
  proof -
    from v obtain c1 :: "'a Config_scheme" where c1: "test_max_rows c1 = test_max_rows cfg"
      "test_min_rows c1 = test_min_rows cfg" "row_padding c1 = row_padding cfg"
      and r: "test_max_rows cfg' = test_max_rows (fst (normalize_test_max_rows c1))"
        "lg = snd (normalize_test_max_rows c1)"
      by (rule verify_values_test_max_rows)
    from c1(1) z have "normalize_test_max_rows c1 = (c1, [])"
      by (simp add: normalize_unrestricted)
    with r c1 z show ?thesis by simp
  qed
  from raised [of cfg] whole_raised normalize_unrestricted [of cfg] whole_zero
  show ?thesis by blast
qed

lemma config_unrestricted_layout: "verify_layout config_unrestricted = None"
  by code_simp

lemma config_unrestricted_banks: "verify_banks config_unrestricted = Inr config_unrestricted"
  by code_simp

text \<open>
  C9 (as stated): whenever \<^verbatim>\<open>test_max_rows < test_min_rows + 2 * row_padding\<close>, verification
  raises \<^verbatim>\<open>test_max_rows\<close> to the bound and logs a warning.  The source guards the step with
  \<^verbatim>\<open>test_max_rows > 0\<close>: with \<^verbatim>\<open>test_max_rows = 0\<close>, \<^verbatim>\<open>test_min_rows = 49\<close> and
  \<^verbatim>\<open>row_padding = 10\<close> the bound is 69, yet verification returns with \<^verbatim>\<open>test_max_rows\<close> still
  0 and nothing logged.
\<close>

theorem C9_zero_counterexample:
  "test_max_rows config_unrestricted = 0
   \<and> test_max_rows_lb config_unrestricted = 69
   \<and> verify_values failing_ctor config_unrestricted =
       Inr (config_unrestricted\<lparr>aggressor_init := [0xffffffffffffffff, 0xffffffffffff00ff, 0]\<rparr>, [])"
proof -
  have "test_max_rows config_unrestricted = 0"
    by (simp add: config_unrestricted_def)
  moreover have "test_max_rows_lb config_unrestricted = 69"
    by (simp add: config_unrestricted_def config_ex_def test_max_rows_lb_def)
  moreover have "verify_values failing_ctor config_unrestricted =
       Inr (config_unrestricted\<lparr>aggressor_init := [0xffffffffffffffff, 0xffffffffffff00ff, 0]\<rparr>, [])"
    unfolding verify_values_def config_unrestricted_layout config_unrestricted_banks
    by (simp add: normalize_test_max_rows_def rebuild_hammer_pattern_def
        default_aggressor_init_def config_unrestricted_def config_ex_def)
  ultimately show ?thesis by blast
qed

lemma config_ex_layout: "verify_layout config_ex = None"
  by code_simp

lemma config_ex_banks: "verify_banks config_ex = Inr config_ex"
  by code_simp

lemma config_ex_verified:
  "verify_values failing_ctor config_ex =
     Inr (config_ex\<lparr>test_max_rows := 69,
            aggressor_init := [0xffffffffffffffff, 0xffffffffffff00ff, 0]\<rparr>,
          [Warn_test_max_rows_changed 69])"
  unfolding verify_values_def config_ex_layout config_ex_banks
  by (simp add: normalize_test_max_rows_def rebuild_hammer_pattern_def test_max_rows_lb_def
      default_aggressor_init_def config_ex_def)

theorem C9_test_max_rows_raised_witness:
  "unat (row_padding config_ex) < 2 ^ 31
   \<and> unat (test_min_rows config_ex) + 2 * unat (row_padding config_ex) < 2 ^ 64
   \<and> 0 < unat (test_max_rows config_ex)
   \<and> unat (test_max_rows config_ex)
       < unat (test_min_rows config_ex) + 2 * unat (row_padding config_ex)
   \<and> normalize_test_max_rows config_ex =
        (config_ex\<lparr>test_max_rows := 69\<rparr>, [Warn_test_max_rows_changed 69])
   \<and> verify_values failing_ctor config_ex =
        Inr (config_ex\<lparr>test_max_rows := 69,
               aggressor_init := [0xffffffffffffffff, 0xffffffffffff00ff, 0]\<rparr>,
             [Warn_test_max_rows_changed 69])
   \<and> unat (test_max_rows (config_ex\<lparr>test_max_rows := 69,
               aggressor_init := [0xffffffffffffffff, 0xffffffffffff00ff, 0]\<rparr>))
       = unat (test_min_rows config_ex) + 2 * unat (row_padding config_ex)
   \<and> test_max_rows config_unrestricted = 0
   \<and> normalize_test_max_rows config_unrestricted = (config_unrestricted, [])"
proof -
  have a: "unat (row_padding config_ex) < 2 ^ 31
   \<and> unat (test_min_rows config_ex) + 2 * unat (row_padding config_ex) < 2 ^ 64
   \<and> 0 < unat (test_max_rows config_ex)
   \<and> unat (test_max_rows config_ex)
       < unat (test_min_rows config_ex) + 2 * unat (row_padding config_ex)"
    by (simp add: config_ex_def)
  have v: "(of_nat (unat (test_min_rows config_ex) + 2 * unat (row_padding config_ex)) :: u64)
             = 69"
    by (simp add: config_ex_def)
  have z: "test_max_rows config_unrestricted = 0"
    by (simp add: config_unrestricted_def)
  from C9_test_max_rows_raised [of config_ex] a have
    "normalize_test_max_rows config_ex =
       (config_ex\<lparr>test_max_rows :=
           of_nat (unat (test_min_rows config_ex) + 2 * unat (row_padding config_ex))\<rparr>,
        [Warn_test_max_rows_changed
           (of_nat (unat (test_min_rows config_ex) + 2 * unat (row_padding config_ex)))])"
    by blast
  then have r: "normalize_test_max_rows config_ex =
        (config_ex\<lparr>test_max_rows := 69\<rparr>, [Warn_test_max_rows_changed 69])"
    by (simp only: v)
  from C9_test_max_rows_raised [of config_ex] a config_ex_verified have
    w: "unat (test_max_rows (config_ex\<lparr>test_max_rows := 69,
               aggressor_init := [0xffffffffffffffff, 0xffffffffffff00ff, 0]\<rparr>))
       = unat (test_min_rows config_ex) + 2 * unat (row_padding config_ex)"
    by blast
  from C9_test_max_rows_raised [of config_unrestricted] z have
    u: "normalize_test_max_rows config_unrestricted = (config_unrestricted, [])"
    by blast
  from a r config_ex_verified w z u show ?thesis by blast
qed

text \<open>
  C10: if the configuration has victim initialization words but an empty \<^verbatim>\<open>aggressor_init\<close>,
  then verification does not stop at the final size check (it returns whenever the mask,
  bank and pattern steps succeed), and after verification \<^verbatim>\<open>victim_init\<close> is unchanged,
  \<^verbatim>\<open>aggressor_init\<close> has the same length and \<^verbatim>\<open>aggressor_init[i] == ~victim_init[i]\<close> for every
  index.
\<close>

theorem C10_aggressor_init_inverted:
  assumes "aggressor_init cfg = []" and "victim_init cfg \<noteq> []"
  shows "(\<forall>c1 c3. verify_layout cfg = None \<and> verify_banks cfg = Inr c1
            \<and> rebuild_hammer_pattern ctor (fst (normalize_test_max_rows c1)) = Inr c3 \<longrightarrow>
            verify_values ctor cfg =
              Inr (c3\<lparr>aggressor_init := map NOT (victim_init cfg)\<rparr>,
                   snd (normalize_test_max_rows c1)))
       \<and> (\<forall>cfg' lg. verify_values ctor cfg = Inr (cfg', lg) \<longrightarrow>
            victim_init cfg' = victim_init cfg
            \<and> length (aggressor_init cfg') = length (victim_init cfg')
            \<and> (\<forall>i<length (victim_init cfg'). aggressor_init cfg' ! i = NOT (victim_init cfg' ! i)))"
proof -
  have init: "victim_init c3 = victim_init cfg \<and> aggressor_init c3 = []"
    if "verify_banks cfg = Inr c1"
      and "rebuild_hammer_pattern ctor (fst (normalize_test_max_rows c1)) = Inr c3"
    for c1 c3
    using verify_banks_fields [OF that(1)] rebuild_fields [OF that(2)]
      normalize_fields [of c1] assms(1)
    by simp
  have returns: "verify_values ctor cfg =
              Inr (c3\<lparr>aggressor_init := map NOT (victim_init cfg)\<rparr>,
                   snd (normalize_test_max_rows c1))"
    if "verify_layout cfg = None" and "verify_banks cfg = Inr c1"
      and "rebuild_hammer_pattern ctor (fst (normalize_test_max_rows c1)) = Inr c3"
    for c1 c3
    using that init [OF that(2) that(3)]
    by (simp add: verify_values_def default_aggressor_init_def)
  have inverted: "victim_init cfg' = victim_init cfg
            \<and> length (aggressor_init cfg') = length (victim_init cfg')
            \<and> (\<forall>i<length (victim_init cfg'). aggressor_init cfg' ! i = NOT (victim_init cfg' ! i))"
    if v: "verify_values ctor cfg = Inr (cfg', lg)" for cfg' lg
  proof -
    from v obtain c1 c3 where c1: "verify_banks cfg = Inr c1"
      and c3: "rebuild_hammer_pattern ctor (fst (normalize_test_max_rows c1)) = Inr c3"
      and cfg': "cfg' = default_aggressor_init c3"
      by (rule verify_values_InrD)
    from init [OF c1 c3] show ?thesis
      by (simp add: cfg' default_aggressor_init_def)
  qed
  from returns inverted show ?thesis by blast
qed

theorem C10_aggressor_init_inverted_witness:
  "aggressor_init config_ex = [] \<and> victim_init config_ex \<noteq> []
   \<and> verify_values failing_ctor config_ex =
     Inr (config_ex\<lparr>test_max_rows := 69,
            aggressor_init := [0xffffffffffffffff, 0xffffffffffff00ff, 0]\<rparr>,
          [Warn_test_max_rows_changed 69])
   \<and> aggressor_init (config_ex\<lparr>test_max_rows := 69,
            aggressor_init := [0xffffffffffffffff, 0xffffffffffff00ff, 0]\<rparr>) ! 1
       = NOT (victim_init (config_ex\<lparr>test_max_rows := 69,
            aggressor_init := [0xffffffffffffffff, 0xffffffffffff00ff, 0]\<rparr>) ! 1)"
proof -
  have a: "aggressor_init config_ex = []" and b: "victim_init config_ex \<noteq> []"
    by (simp_all add: config_ex_def)
  note t = C10_aggressor_init_inverted [OF a b, of failing_ctor, THEN conjunct2, rule_format,
      OF config_ex_verified]
  have l: "1 < length (victim_init (config_ex\<lparr>test_max_rows := 69,
            aggressor_init := [0xffffffffffffffff, 0xffffffffffff00ff, 0]\<rparr>))"
    by (simp add: config_ex_def)
  from t l have "aggressor_init (config_ex\<lparr>test_max_rows := 69,
            aggressor_init := [0xffffffffffffffff, 0xffffffffffff00ff, 0]\<rparr>) ! 1
       = NOT (victim_init (config_ex\<lparr>test_max_rows := 69,
            aggressor_init := [0xffffffffffffffff, 0xffffffffffff00ff, 0]\<rparr>) ! 1)"
    by blast
  with a b config_ex_verified show ?thesis by blast
qed

section \<open>Facts about the non-contiguous flip finder\<close>

lemma lower_bound_least:
  assumes "sorted rows" and "List.find (\<lambda>r. lo \<le> r) rows = Some lb"
  shows "lb \<in> set rows \<and> lo \<le> lb \<and> (\<forall>r \<in> set rows. lo \<le> r \<longrightarrow> lb \<le> r)"
proof -
  from assms(2) obtain i where i: "i < length rows" "lo \<le> rows ! i"
     "lb = rows ! i" "\<forall>j<i. \<not> lo \<le> rows ! j"
    unfolding find_Some_iff by blast
  have "lb \<le> r" if "r \<in> set rows" "lo \<le> r" for r :: "'a :: linorder"
  proof -
    from that(1) obtain k where k: "k < length rows" "r = rows ! k"
      unfolding in_set_conv_nth by blast
    with that(2) i(4) have "\<not> k < i" by blast
    then have "i \<le> k" by simp
    from sorted_nth_mono [OF assms(1) this k(1)] have "rows ! i \<le> rows ! k" .
    with i(3) k(2) show ?thesis by simp
  qed
  moreover have "lb \<in> set rows" using i(1,3) by simp
  ultimately show ?thesis using i(2,3) by blast
qed

lemma is_any_row_missing_exact:
  assumes "missing_rows ff b = Some rows" and "sorted rows"
  shows "is_any_row_missing cfg ff b first_row last_row =
           Inr (\<exists>r \<in> set rows. first_row - ucast (row_padding cfg) \<le> r
                               \<and> r \<le> last_row + ucast (row_padding cfg))"
proof (cases "List.find (\<lambda>r. first_row - ucast (row_padding cfg) \<le> r) rows")
  case None
  then have "\<not> (\<exists>r \<in> set rows. first_row - ucast (row_padding cfg) \<le> r
                               \<and> r \<le> last_row + ucast (row_padding cfg))"
    unfolding find_None_iff by blast
  with None show ?thesis
    by (simp add: is_any_row_missing_def assms(1))
next
  case (Some lb)
  note l = lower_bound_least [OF assms(2) Some]
  have "(\<exists>r \<in> set rows. first_row - ucast (row_padding cfg) \<le> r
                               \<and> r \<le> last_row + ucast (row_padding cfg))
      = (lb \<le> last_row + ucast (row_padding cfg))"
  proof
    assume "\<exists>r \<in> set rows. first_row - ucast (row_padding cfg) \<le> r
                               \<and> r \<le> last_row + ucast (row_padding cfg)"
    then obtain r where r: "r \<in> set rows" "first_row - ucast (row_padding cfg) \<le> r"
      "r \<le> last_row + ucast (row_padding cfg)" by blast
    from l r(1,2) have "lb \<le> r" by blast
    from this r(3) show "lb \<le> last_row + ucast (row_padding cfg)" by (rule order_trans)
  next
    assume "lb \<le> last_row + ucast (row_padding cfg)"
    with l show "\<exists>r \<in> set rows. first_row - ucast (row_padding cfg) \<le> r
                               \<and> r \<le> last_row + ucast (row_padding cfg)" by blast
  qed
  with Some show ?thesis
    by (simp add: is_any_row_missing_def assms(1))
qed

lemma is_any_row_missing_ex: "is_any_row_missing config_ex flip_finder_ex 0 5 7 = Inr False"
  by (simp add: is_any_row_missing_def flip_finder_ex_def config_ex_def)

lemma pattern_addrs_ex:
  "pattern_addrs default_layout 0 5 [False, True, False] 0 \<lparr>aggs = [], victims = []\<rparr>
     = Some \<lparr>aggs = [0x198000], victims = [0x154000, 0x1dc000]\<rparr>"
  by code_simp

lemma find_pages_low: "fst (find_pages finder_low (BitFlipper_new \<lparr>aggs = [0x198000], victims = [0x154000, 0x1dc000]\<rparr>)) = False"
  by (simp add: find_pages_def find_loop_def find_step_def find_page_def finder_low_def
      BitFlipper_new_def pfn_key_def page_size_def upt_rec)

lemma hammer_skips:
  "is_any_row_missing cfg ff b first_victim last_victim = Inr True \<Longrightarrow>
   hammer cfg ff do_exit b first_victim last_victim = Inr (True, Window_skipped)"
  by (simp add: hammer_def)

lemma hammer_hammered:
  assumes "hammer cfg ff do_exit b first_victim last_victim = Inr (c, Window_hammered bf)"
  shows "is_any_row_missing cfg ff b first_victim last_victim = Inr False"
proof (cases "is_any_row_missing cfg ff b first_victim last_victim")
  case (Inl e)
  with assms show ?thesis by (simp add: hammer_def)
next
  case (Inr x)
  with assms show ?thesis by (cases x) (simp_all add: hammer_def)
qed

text \<open>
  Where neither \<^verbatim>\<open>first_victim - row_padding\<close> nor \<^verbatim>\<open>last_victim + row_padding\<close> wraps, the
  two unsigned comparisons describe the interval of the claim.
\<close>

lemma window_interval_nat:
  fixes r :: u64
  assumes "unat pad \<le> unat first_row" and "unat last_row + unat pad < 2 ^ 64"
  shows "(first_row - pad \<le> r \<and> r \<le> last_row + pad) =
         (unat first_row - unat pad \<le> unat r \<and> unat r \<le> unat last_row + unat pad)"
proof -
  have "unat (first_row - pad) = unat first_row - unat pad"
    using assms(1) by (simp add: unat_sub word_le_nat_alt)
  moreover have "unat (last_row + pad) = unat last_row + unat pad"
    using assms(2) by (simp add: unat_word_ariths)
  ultimately show ?thesis by (simp add: word_le_nat_alt)
qed

text \<open>
  C8: hammering happens only if no row of the closed interval
  \<^verbatim>\<open>[first_victim - row_padding, last_victim + row_padding]\<close> is missing in the bank, and a
  window with a missing row in the interval is skipped silently and the finder continues.
  The source computes \<^verbatim>\<open>first_row - padding\<close> in unsigned 64-bit arithmetic.  For a window
  that starts below \<^verbatim>\<open>row_padding\<close> the difference wraps to a huge key, \<^verbatim>\<open>lower_bound\<close>
  finds nothing and the check reports that no row is missing.  Here rows 5 to 7 of bank 0
  are the window, row 6 is missing, \<^verbatim>\<open>row_padding\<close> is 10: the check returns false, the
  addresses are built, \<^verbatim>\<open>find_pages\<close> fails, and \<^verbatim>\<open>hammer\<close> logs an error and returns false,
  which stops the iteration instead of skipping the window.
\<close>

theorem C8_underflow_window:
  "missing_rows flip_finder_ex 0 = Some [6]
   \<and> row_padding config_ex = 10
   \<and> is_any_row_missing config_ex flip_finder_ex 0 5 7 = Inr False
   \<and> hammer config_ex flip_finder_ex False 0 5 7 = Inr (False, Pages_not_found)"
  using is_any_row_missing_ex pattern_addrs_ex find_pages_low
  by (simp add: hammer_def flip_finder_ex_def config_ex_def)

section \<open>The DRAM address of the documented example\<close>

lemma default_layout_of_phys:
  "DRAMAddr_of_phys default_layout 0x12345000 = Some \<lparr>bank = 24, row = 0x48d, col = 0x1000\<rparr>"
  by code_simp

lemma default_layout_phys_9:
  "DRAMAddr_phys default_layout \<lparr>bank = 9, row = 0x48d, col = 0\<rparr> = Some 0x12366000"
  by code_simp

text \<open>
  C2 (as stated): with the default layout, \<^verbatim>\<open>DRAMAddr(0x12345000)\<close> is bank 9, row
  \<^verbatim>\<open>0x48d\<close>, column 0, and \<^verbatim>\<open>DRAMAddr(9, 0x48d, 0).phys()\<close> is \<^verbatim>\<open>0x12345000\<close>.  Bit 12 of the
  address lies in the column mask \<^verbatim>\<open>0x1fff\<close> and the parities of the five functions are
  0, 0, 0, 1, 1: the code yields bank 24 and column \<^verbatim>\<open>0x1000\<close>, and maps (9, \<^verbatim>\<open>0x48d\<close>, 0)
  to \<^verbatim>\<open>0x12366000\<close>.
\<close>

theorem C2_example_counterexample:
  "DRAMAddr_of_phys default_layout 0x12345000 \<noteq> Some \<lparr>bank = 9, row = 0x48d, col = 0\<rparr>
   \<and> DRAMAddr_phys default_layout \<lparr>bank = 9, row = 0x48d, col = 0\<rparr> = Some 0x12366000"
  by (simp add: default_layout_of_phys default_layout_phys_9)

text \<open>
  C2 (amended): with the default layout, \<^verbatim>\<open>DRAMAddr(0x12345000)\<close> is bank 24, row \<^verbatim>\<open>0x48d\<close>,
  column \<^verbatim>\<open>0x1000\<close>, and \<^verbatim>\<open>DRAMAddr(24, 0x48d, 0x1000).phys()\<close> returns \<^verbatim>\<open>0x12345000\<close>.
\<close>

theorem C2_example_values:
  "DRAMAddr_of_phys default_layout 0x12345000 = Some \<lparr>bank = 24, row = 0x48d, col = 0x1000\<rparr>
   \<and> DRAMAddr_phys default_layout \<lparr>bank = 24, row = 0x48d, col = 0x1000\<rparr> = Some 0x12345000"
  by code_simp

section \<open>Facts about the hammer pattern\<close>

lemma pattern_token_count:
  "count_list (fst (pattern_token gap c st)) True
     = count_list (fst st) True + (if c = CHR ''a'' then 1 else 0)"
  by (simp add: pattern_token_def)

lemma append_period_count:
  "count_list (fst (append_period gap desc st)) True
     = count_list (fst st) True + count_list desc CHR ''a''"
  unfolding append_period_def
  by (induction desc arbitrary: st) (simp_all add: pattern_token_count)

lemma repeat_template_Some:
  assumes "repeat_template gap desc n fuel st = Some st'"
    and "count_list desc CHR ''a'' dvd count_list (fst st) True"
  shows "n \<le> count_list (fst st') True
       \<and> count_list desc CHR ''a'' dvd count_list (fst st') True"
  using assms
proof (induction gap desc n fuel st rule: repeat_template.induct)
  case (1 gap desc n fuel st)
  show ?case
  proof (cases "n \<le> count_list (fst st) True")
    case True
    with "1.prems" show ?thesis by simp
  next
    case False
    with "1.prems"(1) obtain fuel' where f: "fuel = Suc fuel'"
      and r: "repeat_template gap desc n fuel' (append_period gap desc st) = Some st'"
      by (cases fuel) simp_all
    have "count_list desc CHR ''a'' dvd count_list (fst (append_period gap desc st)) True"
      using "1.prems"(2) by (simp add: append_period_count)
    with "1.IH" [OF False f r] show ?thesis .
  qed
qed

lemma repeat_template_total:
  assumes "0 < count_list desc CHR ''a''"
    and "n \<le> count_list (fst st) True + fuel"
  shows "\<exists>st'. repeat_template gap desc n fuel st = Some st'"
  using assms(2)
proof (induction fuel arbitrary: st)
  case 0
  then show ?case by simp
next
  case (Suc fuel)
  show ?case
  proof (cases "n \<le> count_list (fst st) True")
    case True
    then show ?thesis by simp
  next
    case False
    have "n \<le> count_list (fst (append_period gap desc st)) True + fuel"
      using Suc.prems assms(1) by (simp add: append_period_count)
    from Suc.IH [OF this] False show ?thesis by simp
  qed
qed

lemma trailing_victim_last: "trailing_victim bs \<noteq> [] \<and> last (trailing_victim bs) = False"
  by (simp add: trailing_victim_def)

lemma trailing_victim_count: "count_list (trailing_victim bs) True = count_list bs True"
  by (simp add: trailing_victim_def)

lemma create_pattern_Some:
  assumes "create_pattern gap desc n = Some (hp, n')"
  shows "n \<le> count_list (bits hp) True
       \<and> count_char_in_description desc CHR ''a'' dvd count_list (bits hp) True
       \<and> n' = count_list (bits hp) True
       \<and> bits hp \<noteq> [] \<and> last (bits hp) = False"
proof -
  from assms obtain st where st: "repeat_template gap desc n n ([], 0) = Some st"
    and hp: "hp = \<lparr>bits = trailing_victim (fst st), description = desc\<rparr>"
    and n': "n' = count_list (fst st) True"
    by (auto simp: create_pattern_def split: if_splits option.splits)
  from repeat_template_Some [OF st] have
    "n \<le> count_list (fst st) True \<and> count_list desc CHR ''a'' dvd count_list (fst st) True"
    by simp
  then show ?thesis
    by (simp add: hp n' count_char_in_description_def trailing_victim_last trailing_victim_count)
qed

lemma create_pattern_total:
  assumes "validate_description desc" and "CHR ''a'' \<in> set desc"
  shows "\<exists>hp n'. create_pattern gap desc n = Some (hp, n')"
proof -
  from assms(2) have pos: "0 < count_list desc CHR ''a''"
    by (induction desc) auto
  then obtain st where st: "repeat_template gap desc n n ([], 0) = Some st"
    using repeat_template_total [of desc n "([], 0)" n gap] by auto
  with assms(1) show ?thesis
    by (simp add: create_pattern_def)
qed

text \<open>
  C7: for every pattern description and every requested aggressor count, a constructed
  pattern has at least the requested number of true bits, that number is a multiple of the
  number of \<^verbatim>\<open>a\<close> tokens of the description and is what is reported back, and if the
  description ends in \<^verbatim>\<open>a\<close> the sequence ends with a false bit (indeed it always does).
  The construction does return for every description over \<^verbatim>\<open>v\<close>, \<^verbatim>\<open>a\<close>, \<^verbatim>\<open>x\<close> that has an
  \<^verbatim>\<open>a\<close>.
\<close>

theorem C7_hammer_pattern_invariant:
  "(create_pattern gap desc n = Some (hp, n') \<longrightarrow>
      n \<le> count_list (bits hp) True
      \<and> count_char_in_description desc CHR ''a'' dvd count_list (bits hp) True
      \<and> n' = count_list (bits hp) True
      \<and> (desc \<noteq> [] \<and> last desc = CHR ''a'' \<longrightarrow>
            bits hp \<noteq> [] \<and> last (bits hp) = False))
   \<and> (validate_description desc \<and> CHR ''a'' \<in> set desc \<longrightarrow>
        (\<exists>hp n'. create_pattern gap desc n = Some (hp, n')))"
  using create_pattern_Some [of gap desc n hp n'] create_pattern_total [of desc gap n]
  by blast

theorem C7_hammer_pattern_invariant_witness:
  "create_pattern no_gaps ''va'' 4 =
        Some (\<lparr>bits = [False, True, False, True, False, True, False, True, False],
               description = ''va''\<rparr>, 4)
   \<and> 4 \<le> count_list (bits \<lparr>bits = [False, True, False, True, False, True, False, True, False],
               description = ''va''\<rparr>) True
   \<and> last (bits \<lparr>bits = [False, True, False, True, False, True, False, True, False],
               description = ''va''\<rparr>) = False
   \<and> validate_description ''va'' \<and> CHR ''a'' \<in> set ''va''"
proof -
  have c: "create_pattern no_gaps ''va'' 4 =
        Some (\<lparr>bits = [False, True, False, True, False, True, False, True, False],
               description = ''va''\<rparr>, 4)"
    by code_simp
  have v: "validate_description ''va''" by (simp add: validate_description_def)
  have a: "CHR ''a'' \<in> set ''va''" by simp
  have e: "''va'' \<noteq> [] \<and> last ''va'' = CHR ''a''" by simp
  from C7_hammer_pattern_invariant [of no_gaps "''va''" 4
      "\<lparr>bits = [False, True, False, True, False, True, False, True, False],
               description = ''va''\<rparr>" 4] c e
  have "4 \<le> count_list (bits \<lparr>bits = [False, True, False, True, False, True, False, True, False],
               description = ''va''\<rparr>) True
   \<and> last (bits \<lparr>bits = [False, True, False, True, False, True, False, True, False],
               description = ''va''\<rparr>) = False"
    by blast
  with c v a show ?thesis by blast
qed

end
